theory Spec2Isabelle
  imports Complex_Main "HOL-Library.Word" "HOL-Library.Sublist"
begin

section \<open>Data model of package taskengine\<close>

text \<open>
  The engine lives in \<^verbatim>\<open>src/unnamed/part_006\<close> (package \<^verbatim>\<open>taskengine\<close>, lines 1-366).
  Its functions are translated below one by one, in the order of the file.
\<close>

subsection \<open>Data types passed between tasks\<close>

text \<open>The enumeration \<^verbatim>\<open>DataType\<close> (part_006, lines 24-38).\<close>

datatype DataType =
    DataTypeAny
  | DataTypeString
  | DataTypeBool
  | DataTypeInt
  | DataTypeFloat
  | DataTypeSearchResults
  | DataTypeJSON
  | DataTypeChatHistory
  | DataTypeOpenAIChat
  | DataTypeOpenAIChatResponse

subsection \<open>Errors\<close>

text \<open>
  Every \<^verbatim>\<open>fmt.Errorf\<close> of the file is one constructor; the format string is given beside it.
  An error wrapped with \<^verbatim>\<open>%v\<close> is kept as the argument of the wrapper.
  \<open>ExternalError\<close> stands for an error value made outside this file (by the task
  executor, \<^verbatim>\<open>llmresolver.PolicyFromString\<close>, \<^verbatim>\<open>text/template\<close>, \<^verbatim>\<open>time.ParseDuration\<close>
  or \<^verbatim>\<open>strconv.ParseFloat\<close>).
\<close>

datatype error =
    ExternalError string
  | InvalidRangeFormat string            \<comment> \<open>\<^verbatim>\<open>invalid between range format: %s\<close>\<close>
  | InvalidLowerBound error              \<comment> \<open>\<^verbatim>\<open>invalid lower bound: %v\<close>\<close>
  | InvalidUpperBound error              \<comment> \<open>\<^verbatim>\<open>invalid upper bound: %v\<close>\<close>
  | UnsupportedOperator string           \<comment> \<open>\<^verbatim>\<open>unsupported operator: %s\<close>\<close>
  | NoMatchingTransition                 \<comment> \<open>\<^verbatim>\<open>no matching transition found\<close>\<close>
  | TaskNotFound string                  \<comment> \<open>\<^verbatim>\<open>task not found: %s\<close>\<close>
  | ChainHasNoTasks                      \<comment> \<open>\<^verbatim>\<open>chain has no tasks\<close>\<close>
  | TaskIDEmpty                          \<comment> \<open>\<^verbatim>\<open>task ID cannot be empty\<close>\<close>
  | TaskIDIsTermEnd                      \<comment> \<open>\<^verbatim>\<open>task ID cannot be 'end'\<close>\<close>
  | TemplateError string error           \<comment> \<open>\<^verbatim>\<open>task %s: template error: %v\<close>\<close>
  | TemplateRenderedEmpty string         \<comment> \<open>\<^verbatim>\<open>task %s: template rendered empty string\<close>\<close>
  | InvalidTimeout string error          \<comment> \<open>\<^verbatim>\<open>task %s: invalid timeout: %v\<close>\<close>
  | ErrorTransitionTargetNotFound error  \<comment> \<open>\<^verbatim>\<open>error transition target not found: %v\<close>\<close>
  | TaskFailedAfterRetries string int error
                                         \<comment> \<open>\<^verbatim>\<open>task %s failed after %d retries: %v\<close>\<close>
  | PrintTemplateError string error      \<comment> \<open>\<^verbatim>\<open>task %s: print template error: %v\<close>\<close>
  | TransitionError string error         \<comment> \<open>\<^verbatim>\<open>task %s: transition error: %v\<close>\<close>
  | NextTaskNotFound string error        \<comment> \<open>\<^verbatim>\<open>next task %s not found: %v\<close>\<close>
  | IndexOutOfRange                      \<comment> \<open>the run-time panic of \<^verbatim>\<open>chain.Tasks[0]\<close> on an empty slice\<close>

subsection \<open>Values of Go's \<^verbatim>\<open>any\<close>\<close>

text \<open>
  Task inputs and outputs, template variables and tracker attributes have type \<^verbatim>\<open>any\<close>.
  The engine itself only makes strings (rendered templates), ints (the retry counter) and
  errors; every other value is opaque to it and is told apart by a tag.
\<close>

datatype any =
    AnyNil
  | AnyString string
  | AnyInt int
  | AnyError error
  | AnyOther nat

subsection \<open>Chains, tasks and transitions\<close>

text \<open>
  Modelled from the spec: the operator literals and the reserved id \<^verbatim>\<open>end\<close>. The Go
  constants \<^verbatim>\<open>OpEquals\<close> ... \<^verbatim>\<open>OpDefault\<close> and \<^verbatim>\<open>TermEnd\<close> are declared in a file that is
  not under src/; their values are the literals of sections 3, 6.1 and 6.4 of the
  specification (part_001 builds its chains with \<^verbatim>\<open>Operator: "default"\<close> and
  \<^verbatim>\<open>Goto: taskengine.TermEnd\<close>).
\<close>

type_synonym OperatorTerm = string

abbreviation OpEquals :: OperatorTerm where "OpEquals \<equiv> ''equals''"
abbreviation OpContains :: OperatorTerm where "OpContains \<equiv> ''contains''"
abbreviation OpStartsWith :: OperatorTerm where "OpStartsWith \<equiv> ''starts_with''"
abbreviation OpEndsWith :: OperatorTerm where "OpEndsWith \<equiv> ''ends_with''"
abbreviation OpGreaterThan :: OperatorTerm where "OpGreaterThan \<equiv> ''greater_than''"
abbreviation OpGt :: OperatorTerm where "OpGt \<equiv> ''>''"
abbreviation OpLessThan :: OperatorTerm where "OpLessThan \<equiv> ''less_than''"
abbreviation OpLt :: OperatorTerm where "OpLt \<equiv> ''<''"
abbreviation OpInRange :: OperatorTerm where "OpInRange \<equiv> ''in_range''"
abbreviation OpDefault :: OperatorTerm where "OpDefault \<equiv> ''default''"

abbreviation TermEnd :: string where "TermEnd \<equiv> ''end''"

text \<open>
  Modelled from the spec: the structs \<^verbatim>\<open>TransitionBranch\<close>, \<^verbatim>\<open>TaskTransition\<close>, \<^verbatim>\<open>HookCall\<close>,
  \<^verbatim>\<open>ChainTask\<close> and \<^verbatim>\<open>ChainDefinition\<close>, whose declarations are not under src/. The fields
  are those of section 3 and section 6.1 of the specification, under the names the Go code
  uses for them (part_006 and the chain builders of part_001). \<^verbatim>\<open>RetryOnFailure\<close> is a Go
  \<^verbatim>\<open>int\<close> (it is compared with the \<^verbatim>\<open>int\<close> loop counter \<^verbatim>\<open>retry\<close>), 64 bits wide on the
  platforms the service is built for. The chain's own \<^verbatim>\<open>ID\<close> and \<^verbatim>\<open>Description\<close> are named
  \<open>ChainID\<close> and \<open>ChainDescription\<close> here, since a task has fields of the same names.
\<close>

record TransitionBranch =
  Operator :: OperatorTerm
  When :: string
  Goto :: string

record TaskTransition =
  OnFailure :: string
  Branches :: "TransitionBranch list"

record HookCall =
  HookType :: string
  Args :: "(string \<times> string) list"

record ChainTask =
  ID :: string
  Description :: string
  Type :: string
  Template :: string
  Hook :: "HookCall option"
  Timeout :: string
  RetryOnFailure :: "64 word"
  Print :: string
  ValidConditions :: "(string \<times> bool) list"
  Transition :: TaskTransition

record ChainDefinition =
  ChainID :: string
  ChainDescription :: string
  RoutingStrategy :: string
  Tasks :: "ChainTask list"

text \<open>
  Modelled from the spec: the resolver policies. \<^verbatim>\<open>llmresolver.Policy\<close> and
  \<^verbatim>\<open>llmresolver.Randomly\<close> are declared outside src/; section 9 of the specification gives
  the policies as the closed union below.
\<close>

datatype Policy = Randomly | RoundRobin | LowLatency | Sticky string

subsection \<open>64-bit floating point numbers\<close>

text \<open>
  \<^verbatim>\<open>parseNumber\<close> returns a \<^verbatim>\<open>float64\<close>. A finite float64 is a rational number; the two
  zeros compare equal, so one \<open>Finite 0\<close> stands for both. The comparisons are those of
  IEEE 754: every comparison with \<open>NaN\<close> is false.
\<close>

datatype float64 = Finite rat | PosInf | NegInf | NaN

fun f64_less :: "float64 \<Rightarrow> float64 \<Rightarrow> bool" where
  "f64_less NaN _ = False"
| "f64_less _ NaN = False"
| "f64_less (Finite a) (Finite b) = (a < b)"
| "f64_less (Finite a) PosInf = True"
| "f64_less (Finite a) NegInf = False"
| "f64_less PosInf _ = False"
| "f64_less NegInf NegInf = False"
| "f64_less NegInf _ = True"

fun f64_le :: "float64 \<Rightarrow> float64 \<Rightarrow> bool" where
  "f64_le NaN _ = False"
| "f64_le _ NaN = False"
| "f64_le (Finite a) (Finite b) = (a \<le> b)"
| "f64_le (Finite a) PosInf = True"
| "f64_le (Finite a) NegInf = False"
| "f64_le PosInf PosInf = True"
| "f64_le PosInf _ = False"
| "f64_le NegInf _ = True"

text \<open>Go's \<^verbatim>\<open>a > b\<close> and \<^verbatim>\<open>a >= b\<close> on float64.\<close>

definition f64_greater :: "float64 \<Rightarrow> float64 \<Rightarrow> bool" where
  "f64_greater a b = f64_less b a"

definition f64_ge :: "float64 \<Rightarrow> float64 \<Rightarrow> bool" where
  "f64_ge a b = f64_le b a"

text \<open>
  The conversion \<^verbatim>\<open>float64(i)\<close> of an int64: exact below \<open>2^53\<close> in magnitude, and rounded
  to the nearest number with a 53-bit significand (ties to the even significand) above.
  \<open>significand_shift a 0\<close> is the number of bits by which \<open>a\<close> is longer than 53 bits
  (at most 11 for an int64).
\<close>

function significand_shift :: "int \<Rightarrow> nat \<Rightarrow> nat" where
  "significand_shift a e =
     (if a < 2 ^ (53 + e) \<or> 11 \<le> e then e else significand_shift a (Suc e))"
  by pat_completeness auto
termination
  by (relation "measure (\<lambda>(a, e). 11 - e)") auto

declare significand_shift.simps [simp del]

definition round_to_float64 :: "int \<Rightarrow> int" where
  "round_to_float64 i =
     (let a = \<bar>i\<bar> in
      if a < 2 ^ 53 then i
      else
        let e = significand_shift a 0;
            q = a div 2 ^ e;
            r = a mod 2 ^ e;
            h = 2 ^ (e - 1);
            q' = (if h < r \<or> (r = h \<and> odd q) then q + 1 else q)
        in sgn i * (q' * 2 ^ e))"

definition float64_of_int64 :: "int \<Rightarrow> float64" where
  "float64_of_int64 i = Finite (of_int (round_to_float64 i))"

section \<open>The standard library and the other packages\<close>

text \<open>
  The engine calls functions it does not define: \<^verbatim>\<open>strconv.ParseFloat\<close>,
  \<^verbatim>\<open>strings.TrimSpace\<close>, \<^verbatim>\<open>time.ParseDuration\<close>, the \<^verbatim>\<open>text/template\<close> engine behind
  \<^verbatim>\<open>renderTemplate\<close> (part_006, lines 236-246: parse the template, execute it on the
  variables, return the text or the error) and \<^verbatim>\<open>llmresolver.PolicyFromString\<close>. They
  are parameters of the model, collected in one record; every theorem below holds for
  all of them.
\<close>

record stdlib =
  ParseFloat :: "string \<Rightarrow> error + float64"
  TrimSpace :: "string \<Rightarrow> string"
  ParseDuration :: "string \<Rightarrow> error + nat"
  renderTemplate :: "string \<Rightarrow> (string \<rightharpoonup> any) \<Rightarrow> error + string"
  PolicyFromString :: "string \<Rightarrow> error + Policy"

subsection \<open>\<^verbatim>\<open>strconv.ParseInt(s, 10, 64)\<close>\<close>

text \<open>
  An optional sign, then one or more decimal digits and nothing else (base 10 is given,
  so no prefix and no underscore is accepted); the value must fit an int64.
\<close>

definition digit_value :: "char \<Rightarrow> int option" where
  "digit_value c =
     (let n = (of_char c :: int) in if 48 \<le> n \<and> n \<le> 57 then Some (n - 48) else None)"

fun parse_digits :: "int \<Rightarrow> string \<Rightarrow> int option" where
  "parse_digits acc [] = Some acc"
| "parse_digits acc (c # cs) =
     (case digit_value c of None \<Rightarrow> None | Some d \<Rightarrow> parse_digits (acc * 10 + d) cs)"

definition ParseUint :: "string \<Rightarrow> int option" where
  "ParseUint s = (if s = [] then None else parse_digits 0 s)"

definition ParseInt :: "string \<Rightarrow> int option" where
  "ParseInt s =
     (case s of
        [] \<Rightarrow> None
      | c # cs \<Rightarrow>
          (let neg = (c = CHR ''-'');
               digits = (if c = CHR ''+'' \<or> c = CHR ''-'' then cs else s)
           in case ParseUint digits of
                None \<Rightarrow> None
              | Some un \<Rightarrow>
                  if \<not> neg \<and> 2 ^ 63 \<le> un then None
                  else if neg \<and> 2 ^ 63 < un then None
                  else Some (if neg then - un else un)))"

subsection \<open>\<^verbatim>\<open>strings.Split\<close> on a one-character separator\<close>

fun Split :: "string \<Rightarrow> char \<Rightarrow> string list" where
  "Split [] sep = [[]]"
| "Split (c # cs) sep =
     (if c = sep then [] # Split cs sep
      else (case Split cs sep of
              [] \<Rightarrow> [[c]]
            | p # ps \<Rightarrow> (c # p) # ps))"

section \<open>Transition evaluation\<close>

text \<open>\<^verbatim>\<open>parseNumber\<close> (part_006, lines 275-282): int first, float as the fallback.\<close>

definition parseNumber :: "stdlib \<Rightarrow> string \<Rightarrow> error + float64" where
  "parseNumber L s =
     (case ParseInt s of
        Some i \<Rightarrow> Inr (float64_of_int64 i)
      | None \<Rightarrow> ParseFloat L s)"

text \<open>\<^verbatim>\<open>compare\<close> (part_006, lines 288-339).\<close>

definition compare :: "stdlib \<Rightarrow> OperatorTerm \<Rightarrow> string \<Rightarrow> string \<Rightarrow> error + bool" where
  "compare L operator response when =
     (if operator = OpEquals then Inr (response = when)
      else if operator = OpContains then Inr (sublist when response)
      else if operator = OpStartsWith then Inr (prefix when response)
      else if operator = OpEndsWith then Inr (suffix when response)
      else if operator = OpGreaterThan \<or> operator = OpGt then
        (case parseNumber L response of
           Inl err \<Rightarrow> Inl err
         | Inr resNum \<Rightarrow>
             (case parseNumber L when of
                Inl err \<Rightarrow> Inl err
              | Inr targetNum \<Rightarrow> Inr (f64_greater resNum targetNum)))
      else if operator = OpLessThan \<or> operator = OpLt then
        (case parseNumber L response of
           Inl err \<Rightarrow> Inl err
         | Inr resNum \<Rightarrow>
             (case parseNumber L when of
                Inl err \<Rightarrow> Inl err
              | Inr targetNum \<Rightarrow> Inr (f64_less resNum targetNum)))
      else if operator = OpInRange then
        (case Split when CHR ''-'' of
           [lo, hi] \<Rightarrow>
             (case parseNumber L (TrimSpace L lo) of
                Inl err \<Rightarrow> Inl (InvalidLowerBound err)
              | Inr lower \<Rightarrow>
                  (case parseNumber L (TrimSpace L hi) of
                     Inl err \<Rightarrow> Inl (InvalidUpperBound err)
                   | Inr upper \<Rightarrow>
                       (case parseNumber L response of
                          Inl err \<Rightarrow> Inl err
                        | Inr resNum \<Rightarrow> Inr (f64_ge resNum lower \<and> f64_le resNum upper))))
         | _ \<Rightarrow> Inl (InvalidRangeFormat when))
      else Inl (UnsupportedOperator operator))"

text \<open>
  \<^verbatim>\<open>evaluateTransitions\<close> (part_006, lines 248-272). Its first loop is \<open>explicit_match\<close>:
  it skips the default branches, returns the error of the first comparison that fails,
  and the \<^verbatim>\<open>Goto\<close> of the first branch that matches. Its second loop is \<open>default_goto\<close>.
\<close>

fun explicit_match :: "stdlib \<Rightarrow> TransitionBranch list \<Rightarrow> string \<Rightarrow> error + string option" where
  "explicit_match L [] eval = Inr None"
| "explicit_match L (ct # cts) eval =
     (if Operator ct = OpDefault then explicit_match L cts eval
      else (case compare L (Operator ct) eval (When ct) of
              Inl err \<Rightarrow> Inl err
            | Inr match \<Rightarrow> if match then Inr (Some (Goto ct)) else explicit_match L cts eval))"

fun default_goto :: "TransitionBranch list \<Rightarrow> string option" where
  "default_goto [] = None"
| "default_goto (ct # cts) =
     (if Operator ct = ''default'' then Some (Goto ct) else default_goto cts)"

definition evaluateTransitions :: "stdlib \<Rightarrow> TaskTransition \<Rightarrow> string \<Rightarrow> error + string" where
  "evaluateTransitions L transition eval =
     (case explicit_match L (Branches transition) eval of
        Inl err \<Rightarrow> Inl err
      | Inr (Some goto) \<Rightarrow> Inr goto
      | Inr None \<Rightarrow>
          (case default_goto (Branches transition) of
             Some goto \<Rightarrow> Inr goto
           | None \<Rightarrow> Inl NoMatchingTransition))"

section \<open>Chain validation and task lookup\<close>

text \<open>\<^verbatim>\<open>findTaskByID\<close> (part_006, lines 342-349): the first task with the id.\<close>

fun findTaskByID :: "ChainTask list \<Rightarrow> string \<Rightarrow> error + ChainTask" where
  "findTaskByID [] tid = Inl (TaskNotFound tid)"
| "findTaskByID (task # tasks) tid =
     (if ID task = tid then Inr task else findTaskByID tasks tid)"

text \<open>
  \<^verbatim>\<open>validateChain\<close> (part_006, lines 351-366); \<open>None\<close> is Go's \<^verbatim>\<open>nil\<close> error. The loop over
  the tasks is \<open>validate_ids\<close>.
\<close>

fun validate_ids :: "ChainTask list \<Rightarrow> error option" where
  "validate_ids [] = None"
| "validate_ids (ct # cts) =
     (if ID ct = [] \<or> ID ct = TermEnd then
        (if ID ct = [] then Some TaskIDEmpty else Some TaskIDIsTermEnd)
      else validate_ids cts)"

definition validateChain :: "ChainTask list \<Rightarrow> error option" where
  "validateChain tasks = (if length tasks = 0 then Some ChainHasNoTasks else validate_ids tasks)"

section \<open>The engine\<close>

subsection \<open>The task executor, the activity tracker and the state of one execution\<close>

text \<open>
  \<^verbatim>\<open>TaskExecutor.TaskExec\<close> is an interface method: the engine is given an executor and
  calls it once per attempt. The executor may keep state of its own between calls (the
  mock of part_002 counts its calls), so it is a function from its state \<open>'x\<close> to the four
  results and the next state. The context and the starting time are passed through to it
  unread by the engine and are part of \<open>'x\<close>.
\<close>

type_synonym 'x TaskExecutor =
  "Policy \<Rightarrow> ChainTask \<Rightarrow> any \<Rightarrow> DataType \<Rightarrow> 'x \<Rightarrow> (any \<times> DataType \<times> string \<times> error option) \<times> 'x"

text \<open>
  The engine reports to \<^verbatim>\<open>serverops.ActivityTracker\<close>: \<^verbatim>\<open>Start(ctx, operation, subject,
  kvArgs...)\<close> returns the three callbacks \<^verbatim>\<open>reportErr\<close>, \<^verbatim>\<open>reportChange\<close> and \<^verbatim>\<open>end\<close>. The
  tracker is the list of the calls made on it, in order; a callback is named with the
  operation and subject of the \<^verbatim>\<open>Start\<close> it came from.
\<close>

datatype event =
    Start string string "(string \<times> any) list"
  | ReportErr string string error
  | ReportChange string string string any
  | End string string

text \<open>
  The mutable state of one call of \<^verbatim>\<open>ExecEnv\<close>: its local variables \<^verbatim>\<open>vars\<close>, \<^verbatim>\<open>output\<close> (the field \<open>outputVal\<close>),
  \<^verbatim>\<open>outputType\<close>, \<^verbatim>\<open>transitionEval\<close> and \<^verbatim>\<open>taskErr\<close>; the executor's state; the calls received
  by the tracker; the lines written to standard output by \<^verbatim>\<open>fmt.Println\<close>; and the
  deferred \<^verbatim>\<open>end\<close> callbacks, most recent first, which run when \<^verbatim>\<open>ExecEnv\<close> returns.
\<close>

record 'x run_state =
  vars :: "string \<rightharpoonup> any"
  outputVal :: any
  outputType :: DataType
  transitionEval :: string
  taskErr :: "error option"
  executor :: 'x
  tracker :: "event list"
  stdout :: "string list"
  deferred :: "event list"

definition emit :: "event list \<Rightarrow> 'x run_state \<Rightarrow> 'x run_state" where
  "emit evs s = s\<lparr>tracker := tracker s @ evs\<rparr>"

definition defer_end :: "string \<Rightarrow> string \<Rightarrow> 'x run_state \<Rightarrow> 'x run_state" where
  "defer_end operation subject s = s\<lparr>deferred := End operation subject # deferred s\<rparr>"

subsection \<open>Prompt rendering (part_006, lines 114-123)\<close>

definition render_prompt :: "stdlib \<Rightarrow> ChainTask \<Rightarrow> 'x run_state \<Rightarrow> error + 'x run_state" where
  "render_prompt L currentTask s =
     (if outputType s = DataTypeString \<and> Template currentTask \<noteq> [] then
        (case renderTemplate L (Template currentTask) (vars s) of
           Inl err \<Rightarrow> Inl (TemplateError (ID currentTask) err)
         | Inr text \<Rightarrow>
             if text = [] then Inl (TemplateRenderedEmpty (ID currentTask))
             else Inr (s\<lparr>outputVal := AnyString text\<rparr>))
      else Inr s)"

subsection \<open>The retry loop (part_006, lines 125-158)\<close>

text \<open>Go's \<^verbatim>\<open>max\<close> on two ints: the signed order.\<close>

definition max_int64 :: "64 word \<Rightarrow> 64 word \<Rightarrow> 64 word" where
  "max_int64 a b = (if sint a < sint b then b else a)"

text \<open>
  One attempt: the \<^verbatim>\<open>task_attempt\<close> event, the deferred \<^verbatim>\<open>endAttempt\<close>, the call of the
  executor, whose four results are assigned to the variables of \<^verbatim>\<open>ExecEnv\<close> whether it
  failed or not, and the report of the error or of the output (lines 141-157).
\<close>

definition attempt :: "'x TaskExecutor \<Rightarrow> Policy \<Rightarrow> ChainTask \<Rightarrow> 64 word \<Rightarrow> 'x run_state \<Rightarrow> 'x run_state" where
  "attempt exec resolver currentTask retry s =
     (let s1 = defer_end ''task_attempt'' (ID currentTask)
                 (emit [Start ''task_attempt'' (ID currentTask)
                          [(''retry'', AnyInt (sint retry)), (''task_type'', AnyString (Type currentTask))]] s)
      in case exec resolver currentTask (outputVal s1) (outputType s1) (executor s1) of
           ((out, ty, ev, err), x) \<Rightarrow>
             (let s2 = s1\<lparr>outputVal := out, outputType := ty, transitionEval := ev,
                          taskErr := err, executor := x\<rparr>
              in case err of
                   Some e \<Rightarrow> emit [ReportErr ''task_attempt'' (ID currentTask) e] s2
                 | None \<Rightarrow> emit [ReportChange ''task_attempt'' (ID currentTask) (ID currentTask) out] s2))"

text \<open>The timeout of an attempt (lines 132-139): only its parse error is seen by the engine.\<close>

definition timeout_error :: "stdlib \<Rightarrow> ChainTask \<Rightarrow> error option" where
  "timeout_error L currentTask =
     (if Timeout currentTask \<noteq> [] then
        (case ParseDuration L (Timeout currentTask) of
           Inl err \<Rightarrow> Some (InvalidTimeout (ID currentTask) err)
         | Inr d \<Rightarrow> None)
      else None)"

text \<open>
  The loop \<^verbatim>\<open>for retry := 0; retry <= maxRetries; retry++\<close>. The counter is a 64-bit int
  and \<^verbatim>\<open>retry++\<close> wraps around, so the loop need not end: the result \<open>None\<close> is a loop
  that runs forever. \<open>Some (Some err, s)\<close> is the \<^verbatim>\<open>return nil, err\<close> of line 135,
  \<open>Some (None, s)\<close> the normal end of the loop.
\<close>

partial_function (option) retryLoop ::
  "stdlib \<Rightarrow> 'x TaskExecutor \<Rightarrow> Policy \<Rightarrow> ChainTask \<Rightarrow> 64 word \<Rightarrow> 64 word \<Rightarrow> 'x run_state
     \<Rightarrow> (error option \<times> 'x run_state) option"
where
  "retryLoop L exec resolver currentTask maxRetries retry s =
     (if sint retry \<le> sint maxRetries then
        (case timeout_error L currentTask of
           Some err \<Rightarrow> Some (Some err, s)
         | None \<Rightarrow>
             (if taskErr (attempt exec resolver currentTask retry s) \<noteq> None
              then retryLoop L exec resolver currentTask maxRetries (retry + 1)
                     (attempt exec resolver currentTask retry s)
              else Some (None, attempt exec resolver currentTask retry s)))
      else Some (None, s))"

declare retryLoop.simps [code]

subsection \<open>After the retry loop (part_006, lines 160-231)\<close>

text \<open>
  What one pass of the outer loop ends with: \<^verbatim>\<open>ExecEnv\<close> returns (an error, or the final
  output after \<^verbatim>\<open>break\<close>), or the loop goes on with another task.
\<close>

datatype 'x step = Return "error + any" "'x run_state" | Continue ChainTask "'x run_state"

text \<open>The print statement (lines 187-194): the rendered text goes to \<^verbatim>\<open>fmt.Println\<close>.\<close>

definition handle_print :: "stdlib \<Rightarrow> ChainTask \<Rightarrow> 'x run_state \<Rightarrow> error + 'x run_state" where
  "handle_print L currentTask s =
     (if Print currentTask \<noteq> [] then
        (case renderTemplate L (Print currentTask) (vars s) of
           Inl err \<Rightarrow> Inl (PrintTemplateError (ID currentTask) err)
         | Inr printMsg \<Rightarrow> Inr (s\<lparr>stdout := stdout s @ [printMsg]\<rparr>))
      else Inr s)"

definition after_attempts :: "stdlib \<Rightarrow> ChainTask list \<Rightarrow> ChainTask \<Rightarrow> 64 word \<Rightarrow> 'x run_state \<Rightarrow> 'x step" where
  "after_attempts L tasks currentTask maxRetries s =
     (case taskErr s of
        Some terr \<Rightarrow>
          (if OnFailure (Transition currentTask) \<noteq> [] then
             (case findTaskByID tasks (OnFailure (Transition currentTask)) of
                Inl err \<Rightarrow> Return (Inl (ErrorTransitionTargetNotFound err)) s
              | Inr next \<Rightarrow>
                  Continue next
                    (emit [ReportChange ''next_task'' (ID currentTask) (ID next) (AnyError terr)]
                      (defer_end ''next_task'' (ID currentTask)
                        (emit [Start ''next_task'' (ID currentTask)
                                 [(''next_task'', AnyString (ID next)), (''reason'', AnyString ''error'')]] s))))
           else Return (Inl (TaskFailedAfterRetries (ID currentTask) (sint maxRetries) terr)) s)
      | None \<Rightarrow>
          (let s1 = s\<lparr>vars := (vars s)(''previous_output'' \<mapsto> outputVal s, ID currentTask \<mapsto> outputVal s)\<rparr>
           in case handle_print L currentTask s1 of
                Inl err \<Rightarrow> Return (Inl err) s1
              | Inr s2 \<Rightarrow>
                  (case evaluateTransitions L (Transition currentTask) (transitionEval s2) of
                     Inl err \<Rightarrow> Return (Inl (TransitionError (ID currentTask) err)) s2
                   | Inr nextTaskID \<Rightarrow>
                       if nextTaskID = [] \<or> nextTaskID = TermEnd then
                         Return (Inr (outputVal s2))
                           (emit [ReportChange ''chain_complete'' ''chain'' ''chain'' (outputVal s2)]
                             (defer_end ''chain_complete'' ''chain''
                               (emit [Start ''chain_complete'' ''chain'' [(''final_output'', outputVal s2)]] s2)))
                       else
                         (let s3 = emit [ReportChange ''next_task'' (ID currentTask) nextTaskID
                                           (AnyString (transitionEval s2))]
                                     (defer_end ''next_task'' (ID currentTask)
                                       (emit [Start ''next_task'' (ID currentTask)
                                                [(''next_task'', AnyString nextTaskID)]] s2))
                          in case findTaskByID tasks nextTaskID of
                               Inl err \<Rightarrow> Return (Inl (NextTaskNotFound nextTaskID err)) s3
                             | Inr next \<Rightarrow> Continue next s3))))"

subsection \<open>The outer loop and \<^verbatim>\<open>ExecEnv\<close> (part_006, lines 86-234)\<close>

text \<open>
  One pass of the loop \<^verbatim>\<open>for { ... }\<close> of line 113 for the task \<open>currentTask\<close>; \<open>None\<close> when
  its retry loop never ends.
\<close>

definition visit :: "stdlib \<Rightarrow> 'x TaskExecutor \<Rightarrow> Policy \<Rightarrow> ChainTask list \<Rightarrow> ChainTask \<Rightarrow> 'x run_state \<Rightarrow> 'x step option" where
  "visit L exec resolver tasks currentTask s =
     (case render_prompt L currentTask s of
        Inl err \<Rightarrow> Some (Return (Inl err) s)
      | Inr s1 \<Rightarrow>
          (let maxRetries = max_int64 (RetryOnFailure currentTask) 0
           in case retryLoop L exec resolver currentTask maxRetries 0 s1 of
                None \<Rightarrow> None
              | Some (Some err, s2) \<Rightarrow> Some (Return (Inl err) s2)
              | Some (None, s2) \<Rightarrow> Some (after_attempts L tasks currentTask maxRetries s2)))"

text \<open>
  The outer loop. A chain may send the execution round a cycle of tasks for ever; \<open>None\<close>
  is an execution that never returns.
\<close>

partial_function (option) mainLoop ::
  "stdlib \<Rightarrow> 'x TaskExecutor \<Rightarrow> Policy \<Rightarrow> ChainTask list \<Rightarrow> ChainTask \<Rightarrow> 'x run_state
     \<Rightarrow> ((error + any) \<times> 'x run_state) option"
where
  "mainLoop L exec resolver tasks currentTask s =
     (case visit L exec resolver tasks currentTask s of
        None \<Rightarrow> None
      | Some (Return result s') \<Rightarrow> Some (result, s')
      | Some (Continue next s') \<Rightarrow> mainLoop L exec resolver tasks next s')"

declare mainLoop.simps [code]

text \<open>The deferred calls run when \<^verbatim>\<open>ExecEnv\<close> returns, last deferred first.\<close>

definition run_deferred :: "'x run_state \<Rightarrow> 'x run_state" where
  "run_deferred s = s\<lparr>tracker := tracker s @ deferred s, deferred := []\<rparr>"

definition initial_state :: "any \<Rightarrow> DataType \<Rightarrow> 'x \<Rightarrow> 'x run_state" where
  "initial_state input dataType x =
     \<lparr>vars = [''input'' \<mapsto> input], outputVal = input, outputType = dataType, transitionEval = [],
      taskErr = None, executor = x, tracker = [], stdout = [], deferred = []\<rparr>"

text \<open>
  \<^verbatim>\<open>ExecEnv\<close> from line 99 on, once the resolver is chosen: validation, the lookup of the
  first task and the loop. The result is Go's pair \<^verbatim>\<open>(any, error)\<close>: \<open>Inl err\<close> for
  \<^verbatim>\<open>(nil, err)\<close> and \<open>Inr v\<close> for \<^verbatim>\<open>(v, nil)\<close>, with the state the call leaves behind.
\<close>

definition exec_with :: "stdlib \<Rightarrow> 'x TaskExecutor \<Rightarrow> Policy \<Rightarrow> ChainDefinition \<Rightarrow> any \<Rightarrow> DataType \<Rightarrow> 'x
    \<Rightarrow> ((error + any) \<times> 'x run_state) option" where
  "exec_with L exec resolver chain input dataType x =
     (let s0 = initial_state input dataType x in
      case validateChain (Tasks chain) of
        Some err \<Rightarrow> Some (Inl err, s0)
      | None \<Rightarrow>
          (case Tasks chain of
             [] \<Rightarrow> Some (Inl IndexOutOfRange, s0)
           | first # rest \<Rightarrow>
               (case findTaskByID (Tasks chain) (ID first) of
                  Inl err \<Rightarrow> Some (Inl err, s0)
                | Inr currentTask \<Rightarrow>
                    map_option (\<lambda>(result, s). (result, run_deferred s))
                      (mainLoop L exec resolver (Tasks chain) currentTask s0))))"

definition ExecEnv :: "stdlib \<Rightarrow> 'x TaskExecutor \<Rightarrow> ChainDefinition \<Rightarrow> any \<Rightarrow> DataType \<Rightarrow> 'x
    \<Rightarrow> ((error + any) \<times> 'x run_state) option" where
  "ExecEnv L exec chain input dataType x =
     (if length (RoutingStrategy chain) > 0 then
        (case PolicyFromString L (RoutingStrategy chain) of
           Inl err \<Rightarrow> Some (Inl err, initial_state input dataType x)
         | Inr resolver \<Rightarrow> exec_with L exec resolver chain input dataType x)
      else exec_with L exec Randomly chain input dataType x)"

section \<open>The mock executor and a small library\<close>

text \<open>
  \<^verbatim>\<open>MockTaskExecutor\<close> and its method \<^verbatim>\<open>TaskExec\<close> (part_002, lines 279-305): the mock
  returns its fixed output and raw response with the data type it was given; the error is
  the next one of \<^verbatim>\<open>ErrorSequence\<close> while there is one, and \<^verbatim>\<open>MockError\<close> afterwards.
\<close>

record MockTaskExecutor =
  MockOutput :: any
  MockRawResponse :: string
  MockError :: "error option"
  CalledWithTask :: "ChainTask option"
  CalledWithPrompt :: string
  ErrorSequence :: "error option list"
  callIndex :: nat

definition TaskExec :: "MockTaskExecutor TaskExecutor" where
  "TaskExec resolver currentTask input dataType m =
     (let m1 = m\<lparr>CalledWithTask := Some currentTask,
                  CalledWithPrompt := (case input of AnyString prompt \<Rightarrow> prompt | _ \<Rightarrow> [])\<rparr>
      in if callIndex m1 < length (ErrorSequence m1) then
           ((MockOutput m1, dataType, MockRawResponse m1, ErrorSequence m1 ! callIndex m1),
            m1\<lparr>callIndex := callIndex m1 + 1\<rparr>)
         else ((MockOutput m1, dataType, MockRawResponse m1, MockError m1), m1))"

definition mock :: "any \<Rightarrow> string \<Rightarrow> error option \<Rightarrow> MockTaskExecutor" where
  "mock out raw err =
     \<lparr>MockOutput = out, MockRawResponse = raw, MockError = err, CalledWithTask = None,
      CalledWithPrompt = [], ErrorSequence = [], callIndex = 0\<rparr>"

text \<open>
  A library to run the engine on examples. It is used only where the real functions
  give the same answers: \<open>ParseFloat\<close> only on text that is no number at all,
  \<open>TrimSpace\<close> on ASCII text, \<open>renderTemplate\<close> on templates without actions (which
  render as themselves), \<open>ParseDuration\<close> on the durations \<^verbatim>\<open>30s\<close> and \<^verbatim>\<open>50ms\<close> and on a
  word that is no duration, and \<open>PolicyFromString\<close> on the policy names of section 6.1 of
  the specification.
\<close>

definition ascii_space :: "char \<Rightarrow> bool" where
  "ascii_space c = (c \<in> set [CHR '' '', CHR 0x09, CHR 0x0A, CHR 0x0B, CHR 0x0C, CHR 0x0D])"

definition example_lib :: stdlib where
  "example_lib =
     \<lparr>ParseFloat = (\<lambda>s. Inl (ExternalError ''strconv.ParseFloat: invalid syntax'')),
      TrimSpace = (\<lambda>s. rev (dropWhile ascii_space (rev (dropWhile ascii_space s)))),
      ParseDuration = (\<lambda>s. if s = ''30s'' then Inr 30000000000
                            else if s = ''50ms'' then Inr 50000000
                            else Inl (ExternalError ''time: invalid duration'')),
      renderTemplate = (\<lambda>t vs. Inr t),
      PolicyFromString = (\<lambda>s. if s = ''random'' then Inr Randomly
                               else if s = ''round_robin'' then Inr RoundRobin
                               else if s = ''low_latency'' then Inr LowLatency
                               else Inl (ExternalError ''unknown routing strategy''))\<rparr>"

definition mk_branch :: "OperatorTerm \<Rightarrow> string \<Rightarrow> string \<Rightarrow> TransitionBranch" where
  "mk_branch operator when goto = \<lparr>Operator = operator, When = when, Goto = goto\<rparr>"

text \<open>A task of the given id, retry count and transition, with every other field empty.\<close>

definition mk_task :: "string \<Rightarrow> 64 word \<Rightarrow> string \<Rightarrow> TransitionBranch list \<Rightarrow> ChainTask" where
  "mk_task tid retries onFailure branches =
     \<lparr>ID = tid, Description = [], Type = ''raw_string'', Template = [], Hook = None,
      Timeout = [], RetryOnFailure = retries, Print = [], ValidConditions = [],
      Transition = \<lparr>OnFailure = onFailure, Branches = branches\<rparr>\<rparr>"

definition mk_chain :: "string \<Rightarrow> ChainTask list \<Rightarrow> ChainDefinition" where
  "mk_chain strategy tasks =
     \<lparr>ChainID = ''chain'', ChainDescription = [], RoutingStrategy = strategy, Tasks = tasks\<rparr>"

section \<open>Notions used in the statements\<close>

text \<open>
  The first loop of \<^verbatim>\<open>evaluateTransitions\<close> steps past a branch when the branch is a
  default branch or its comparison returns false without an error.
\<close>

definition passes_over :: "stdlib \<Rightarrow> string \<Rightarrow> TransitionBranch \<Rightarrow> bool" where
  "passes_over L eval ct =
     (Operator ct = OpDefault \<or> compare L (Operator ct) eval (When ct) = Inr False)"

text \<open>
  What a call of \<^verbatim>\<open>ExecEnv\<close> shows to the outside: the pair it returns, the lines it wrote
  to standard output and the calls it made on the activity tracker.
\<close>

definition observable ::
  "((error + any) \<times> 'x run_state) option \<Rightarrow> ((error + any) \<times> string list \<times> event list) option" where
  "observable r = map_option (\<lambda>(result, s). (result, stdout s, tracker s)) r"

text \<open>
  The attempts made on a task are counted by the \<^verbatim>\<open>task_attempt\<close> events the tracker has
  received for its id: the engine emits one such event just before each call of the
  executor.
\<close>

fun is_attempt_of :: "string \<Rightarrow> event \<Rightarrow> bool" where
  "is_attempt_of tid (Start operation subject kvs) = (operation = ''task_attempt'' \<and> subject = tid)"
| "is_attempt_of tid _ = False"

definition attempts :: "string \<Rightarrow> event list \<Rightarrow> nat" where
  "attempts tid evs = length (filter (is_attempt_of tid) evs)"

text \<open>
  An executor that fails on every attempt of the task \<open>currentTask\<close>: from every state
  of the executor that satisfies \<open>I\<close>, whatever the resolver, the input and its type, the
  call returns an error and leaves the executor in a state that satisfies \<open>I\<close> again.
\<close>

definition always_fails :: "'x TaskExecutor \<Rightarrow> ChainTask \<Rightarrow> ('x \<Rightarrow> bool) \<Rightarrow> bool" where
  "always_fails exec currentTask I =
     (\<forall>resolver input dataType x. I x \<longrightarrow>
        (case exec resolver currentTask input dataType x of
           ((out, ty, ev, err), x') \<Rightarrow> err \<noteq> None \<and> I x'))"

text \<open>
  A mock executor that fails on every call, and the property of a mock's state that makes
  it fail for ever: an error in \<^verbatim>\<open>MockError\<close> and no \<^verbatim>\<open>ErrorSequence\<close> before it.
\<close>

definition failing_mock :: MockTaskExecutor where
  "failing_mock = mock AnyNil [] (Some (ExternalError ''boom''))"

definition mock_fails :: "MockTaskExecutor \<Rightarrow> bool" where
  "mock_fails m = (MockError m \<noteq> None \<and> ErrorSequence m = [])"


text \<open>
  The update of the variable scope after a successful task (part_006, lines 184-185),
  which is the scope the print template is rendered against.
\<close>

definition scope_update :: "ChainTask \<Rightarrow> 'x run_state \<Rightarrow> 'x run_state" where
  "scope_update currentTask s =
     s\<lparr>vars := (vars s)(''previous_output'' \<mapsto> outputVal s, ID currentTask \<mapsto> outputVal s)\<rparr>"

text \<open>The state a pass of the loop ends in, and a change applied to it.\<close>

fun state_of :: "'x step \<Rightarrow> 'x run_state" where
  "state_of (Return result s) = s"
| "state_of (Continue next s) = s"

fun map_state :: "('x run_state \<Rightarrow> 'x run_state) \<Rightarrow> 'x step \<Rightarrow> 'x step" where
  "map_state f (Return result s) = Return result (f s)"
| "map_state f (Continue next s) = Continue next (f s)"




text \<open>
  The task and the state with which the loop of \<^verbatim>\<open>ExecEnv\<close> enters a pass, \<open>n\<close> passes
  after it entered one with the task \<open>currentTask\<close> and the state \<open>s\<close>: each of the \<open>n\<close> passes has
  ended with a transition to another task.
\<close>

fun after_visits ::
  "stdlib \<Rightarrow> 'x TaskExecutor \<Rightarrow> Policy \<Rightarrow> ChainTask list \<Rightarrow> nat \<Rightarrow> ChainTask \<Rightarrow> 'x run_state
     \<Rightarrow> (ChainTask \<times> 'x run_state) option" where
  "after_visits L exec resolver tasks 0 currentTask s = Some (currentTask, s)"
| "after_visits L exec resolver tasks (Suc n) currentTask s =
     (case visit L exec resolver tasks currentTask s of
        Some (Continue next s') \<Rightarrow> after_visits L exec resolver tasks n next s'
      | _ \<Rightarrow> None)"

text \<open>
  What the tracker receives for the failed attempts of a task, one after the other, from
  the retry number \<open>retry\<close> on: the \<^verbatim>\<open>task_attempt\<close> event and the report of the error.
\<close>

fun failed_attempts :: "ChainTask \<Rightarrow> 64 word \<Rightarrow> error list \<Rightarrow> event list" where
  "failed_attempts currentTask retry [] = []"
| "failed_attempts currentTask retry (e # es) =
     Start ''task_attempt'' (ID currentTask)
       [(''retry'', AnyInt (sint retry)), (''task_type'', AnyString (Type currentTask))]
     # ReportErr ''task_attempt'' (ID currentTask) e
     # failed_attempts currentTask (retry + 1) es"

text \<open>
  A call of the executor: the four arguments the engine passes and the four results it
  gets back. \<open>call_of\<close> is the call made with the executor in the state \<open>x\<close>.
\<close>

record call =
  call_resolver :: Policy
  call_task :: ChainTask
  call_input :: any
  call_dataType :: DataType
  call_output :: any
  call_outputType :: DataType
  call_eval :: string
  call_error :: "error option"

definition call_of :: "'x TaskExecutor \<Rightarrow> Policy \<Rightarrow> ChainTask \<Rightarrow> any \<Rightarrow> DataType \<Rightarrow> 'x \<Rightarrow> call" where
  "call_of exec resolver currentTask input dataType x =
     (case fst (exec resolver currentTask input dataType x) of
        (out, ty, ev, err) \<Rightarrow>
          \<lparr>call_resolver = resolver, call_task = currentTask, call_input = input,
           call_dataType = dataType, call_output = out, call_outputType = ty, call_eval = ev,
           call_error = err\<rparr>)"

text \<open>
  An executor that keeps a log of the calls it receives: \<open>calls\<close> reads the log in the
  state of the executor, and every call appends itself to it. \<open>logged exec\<close> is the
  executor \<open>exec\<close> with such a log beside its state.
\<close>

definition logs_calls :: "'x TaskExecutor \<Rightarrow> ('x \<Rightarrow> call list) \<Rightarrow> bool" where
  "logs_calls exec calls =
     (\<forall>resolver currentTask input dataType x.
        calls (snd (exec resolver currentTask input dataType x))
          = calls x @ [call_of exec resolver currentTask input dataType x])"

definition logged :: "'x TaskExecutor \<Rightarrow> ('x \<times> call list) TaskExecutor" where
  "logged exec resolver currentTask input dataType xl =
     (fst (exec resolver currentTask input dataType (fst xl)),
      (snd (exec resolver currentTask input dataType (fst xl)),
       snd xl @ [call_of exec resolver currentTask input dataType (fst xl)]))"

text \<open>
  An executor that tells the resolver it is given: it answers when the resolver is
  \<^verbatim>\<open>Randomly\<close> and fails with every other one.
\<close>

definition probe :: "unit TaskExecutor" where
  "probe resolver currentTask input dataType u =
     ((AnyString ''answer'', dataType, ''answer'',
       if resolver = Randomly then None else Some (ExternalError ''not the random resolver'')), u)"

text \<open>
  What the tracker receives for one call of the executor, made as the attempt number
  \<open>k\<close>: the \<^verbatim>\<open>task_attempt\<close> event with the id of the task, the retry number and the type of
  the task, then the report of the error, or of the output when there is no error. The
  events of the operation \<^verbatim>\<open>task_attempt\<close> other than the deferred \<^verbatim>\<open>end\<close> calls are
  selected by \<open>of_attempt\<close>.
\<close>

definition attempt_record :: "int \<Rightarrow> call \<Rightarrow> event list" where
  "attempt_record k c =
     [Start ''task_attempt'' (ID (call_task c))
        [(''retry'', AnyInt k), (''task_type'', AnyString (Type (call_task c)))],
      (case call_error c of
         Some e \<Rightarrow> ReportErr ''task_attempt'' (ID (call_task c)) e
       | None \<Rightarrow> ReportChange ''task_attempt'' (ID (call_task c)) (ID (call_task c)) (call_output c))]"

fun attempt_records :: "int list \<Rightarrow> call list \<Rightarrow> event list" where
  "attempt_records (k # ks) (c # cs) = attempt_record k c @ attempt_records ks cs"
| "attempt_records _ _ = []"

fun of_attempt :: "event \<Rightarrow> bool" where
  "of_attempt (Start operation subject kvs) = (operation = ''task_attempt'')"
| "of_attempt (ReportErr operation subject e) = (operation = ''task_attempt'')"
| "of_attempt (ReportChange operation subject tid v) = (operation = ''task_attempt'')"
| "of_attempt (End operation subject) = False"

text \<open>
  Between the states \<open>s\<close> and \<open>s'\<close> the tracker has received, for the operation
  \<^verbatim>\<open>task_attempt\<close>, the records of a list of calls of the executor and nothing else: each
  is a call with the resolver \<open>resolver\<close> and a task of \<open>tasks\<close>; and when the executor logs its
  calls, they are the calls it has received between \<open>s\<close> and \<open>s'\<close>, in that order.
\<close>

definition recorded ::
  "'x TaskExecutor \<Rightarrow> ('x \<Rightarrow> call list) \<Rightarrow> Policy \<Rightarrow> ChainTask list \<Rightarrow> 'x run_state \<Rightarrow> 'x run_state \<Rightarrow> bool" where
  "recorded exec calls resolver tasks s s' =
     (\<exists>ks cs. length ks = length cs \<and>
        filter of_attempt (tracker s') = filter of_attempt (tracker s) @ attempt_records ks cs \<and>
        (\<forall>c \<in> set cs. call_resolver c = resolver \<and> call_task c \<in> set tasks \<and>
           (\<exists>y. c = call_of exec resolver (call_task c) (call_input c) (call_dataType c) y)) \<and>
        (logs_calls exec calls \<longrightarrow> calls (executor s') = calls (executor s) @ cs))"

section \<open>Properties of the transition evaluator\<close>

subsection \<open>Splitting and parsing\<close>

lemma length_Split: "length (Split s c) = Suc (count_list s c)"
  by (induction s) (auto split: list.splits)

lemma Split_no_sep: "c \<notin> set b \<Longrightarrow> Split b c = [b]"
  by (induction b) (auto split: list.splits)

lemma Split_two: "c \<notin> set a \<Longrightarrow> c \<notin> set b \<Longrightarrow> Split (a @ c # b) c = [a, b]"
  by (induction a) (auto simp: Split_no_sep split: list.splits)

lemma count_list_mem: "c \<in> set xs \<Longrightarrow> 0 < count_list xs c"
  by (induction xs) auto

lemma compare_in_range_bad_format:
  "length (Split wh CHR ''-'') \<noteq> 2 \<Longrightarrow>
   compare L OpInRange response wh = Inl (InvalidRangeFormat wh)"
  by (auto simp: compare_def split: list.splits)

lemma compare_in_range_two_parts:
  "Split wh CHR ''-'' = [lo, hi] \<Longrightarrow>
   compare L OpInRange response wh =
     (case parseNumber L (TrimSpace L lo) of
        Inl err \<Rightarrow> Inl (InvalidLowerBound err)
      | Inr lower \<Rightarrow>
          (case parseNumber L (TrimSpace L hi) of
             Inl err \<Rightarrow> Inl (InvalidUpperBound err)
           | Inr upper \<Rightarrow>
               (case parseNumber L response of
                  Inl err \<Rightarrow> Inl err
                | Inr resNum \<Rightarrow> Inr (f64_ge resNum lower \<and> f64_le resNum upper))))"
  by (simp add: compare_def)

text \<open>
  Claim C10. \<^verbatim>\<open>compare\<close> with the operator \<^verbatim>\<open>in_range\<close> returns the error
  \<^verbatim>\<open>invalid between range format\<close> whenever splitting \<^verbatim>\<open>when\<close> at the character \<^verbatim>\<open>-\<close> does
  not give exactly two parts. In particular a \<^verbatim>\<open>when\<close> of the form \<^verbatim>\<open>lo-hi\<close> whose lower
  bound \<^verbatim>\<open>lo\<close> contains a minus sign (a negative number such as in \<^verbatim>\<open>-5-10\<close>) always gives
  that error, whatever the response is: such a range is never evaluated.
\<close>

theorem compare_in_range_rejects_other_than_two_parts:
  "(length (Split wh CHR ''-'') \<noteq> 2 \<longrightarrow>
      compare L OpInRange response wh = Inl (InvalidRangeFormat wh)) \<and>
   (CHR ''-'' \<in> set lo \<longrightarrow>
      compare L OpInRange response (lo @ ''-'' @ hi) = Inl (InvalidRangeFormat (lo @ ''-'' @ hi)))"
proof (intro conjI impI)
  assume "length (Split wh CHR ''-'') \<noteq> 2"
  then show "compare L OpInRange response wh = Inl (InvalidRangeFormat wh)"
    by (rule compare_in_range_bad_format)
next
  assume neg: "CHR ''-'' \<in> set lo"
  have "length (Split (lo @ ''-'' @ hi) CHR ''-'') = Suc (Suc (count_list lo CHR ''-'' + count_list hi CHR ''-''))"
    by (simp add: length_Split)
  with count_list_mem [OF neg] have "length (Split (lo @ ''-'' @ hi) CHR ''-'') \<noteq> 2"
    by simp
  then show "compare L OpInRange response (lo @ ''-'' @ hi) = Inl (InvalidRangeFormat (lo @ ''-'' @ hi))"
    by (rule compare_in_range_bad_format)
qed

text \<open>The theorem at \<^verbatim>\<open>when = "5"\<close> (one part) and at \<^verbatim>\<open>when = "-5-10"\<close> (three parts).\<close>

theorem compare_in_range_rejects_witness:
  "compare example_lib OpInRange ''7'' ''5'' = Inl (InvalidRangeFormat ''5'') \<and>
   compare example_lib OpInRange ''7'' ''-5-10'' = Inl (InvalidRangeFormat ''-5-10'')"
proof -
  have a: "length (Split ''5'' CHR ''-'') \<noteq> 2" by simp
  have b: "CHR ''-'' \<in> set ''-5''" by simp
  from compare_in_range_rejects_other_than_two_parts [where wh = "''5''" and lo = "''-5''" and hi = "''10''"
      and L = example_lib and response = "''7''"] a b
  show ?thesis by simp
qed

lemma f64_less_irrefl: "\<not> f64_less x x"
  by (cases x) auto

lemma compare_greater:
  "operator = OpGt \<or> operator = OpGreaterThan \<Longrightarrow>
   compare L operator response wh =
     (case parseNumber L response of
        Inl err \<Rightarrow> Inl err
      | Inr resNum \<Rightarrow>
          (case parseNumber L wh of
             Inl err \<Rightarrow> Inl err
           | Inr targetNum \<Rightarrow> Inr (f64_greater resNum targetNum)))"
  by (auto simp: compare_def)

lemma compare_less:
  "operator = OpLt \<or> operator = OpLessThan \<Longrightarrow>
   compare L operator response wh =
     (case parseNumber L response of
        Inl err \<Rightarrow> Inl err
      | Inr resNum \<Rightarrow>
          (case parseNumber L wh of
             Inl err \<Rightarrow> Inl err
           | Inr targetNum \<Rightarrow> Inr (f64_less resNum targetNum)))"
  by (auto simp: compare_def)


subsection \<open>The conversion of an int64 to float64\<close>

lemma significand_shift_bounds:
  "2 ^ (52 + e0) \<le> a \<Longrightarrow> a < 2 ^ 64 \<Longrightarrow> e0 \<le> 11 \<Longrightarrow>
   e0 \<le> significand_shift a e0 \<and> significand_shift a e0 \<le> 11 \<and>
   2 ^ (52 + significand_shift a e0) \<le> a \<and> a < 2 ^ (53 + significand_shift a e0)"
proof (induction a e0 rule: significand_shift.induct)
  case (1 a e)
  show ?case
  proof (cases "a < 2 ^ (53 + e) \<or> 11 \<le> e")
    case True
    then have s: "significand_shift a e = e" by (subst significand_shift.simps) simp
    from True "1.prems" have "a < 2 ^ (53 + e)" by auto
    with s "1.prems" show ?thesis by simp
  next
    case False
    then have s: "significand_shift a e = significand_shift a (Suc e)"
      by (subst significand_shift.simps) simp
    from False have "2 ^ (52 + Suc e) \<le> a" "Suc e \<le> 11" by simp_all
    from "1.IH" [OF False this(1) "1.prems"(2) this(2)] show ?thesis
      unfolding s by simp
  qed
qed

lemma round_to_float64_exact: "\<bar>i\<bar> \<le> 2 ^ 53 \<Longrightarrow> round_to_float64 i = i"
proof (cases "\<bar>i\<bar> < 2 ^ 53")
  case True
  then show ?thesis by (simp add: round_to_float64_def)
next
  case False
  assume "\<bar>i\<bar> \<le> 2 ^ 53"
  with False have a: "\<bar>i\<bar> = 2 ^ 53" by simp
  have "significand_shift (2 ^ 53) 0 = 1"
    by (simp add: significand_shift.simps)
  with a show ?thesis
    by (cases "0 \<le> i") (simp_all add: round_to_float64_def Let_def)
qed


lemma int_div_lower: "0 < p \<Longrightarrow> k * p \<le> a \<Longrightarrow> k \<le> a div (p::int)"
  using zdiv_mono1 by fastforce

lemma int_div_upper:
  assumes "0 < p" and "a < k * p"
  shows "a div (p::int) < k"
proof (rule ccontr)
  assume "\<not> a div p < k"
  then have "k \<le> a div p" by simp
  then have "k * p \<le> a div p * p" using assms(1) by (simp add: mult_right_mono)
  moreover have "a = a div p * p + a mod p" by simp
  moreover have "0 \<le> a mod p" using assms(1) by simp
  ultimately show False using assms(2) by linarith
qed

lemma round_to_float64_nearest:
  assumes lo: "2 ^ 53 \<le> \<bar>i\<bar>" and hi: "\<bar>i\<bar> \<le> 2 ^ 63"
  shows "\<exists>e q. 1 \<le> e \<and> e \<le> 11 \<and> 2 ^ (52 + e) \<le> \<bar>i\<bar> \<and> \<bar>i\<bar> < 2 ^ (53 + e) \<and>
           2 ^ 52 \<le> q \<and> q \<le> 2 ^ 53 \<and> round_to_float64 i = sgn i * (q * 2 ^ e) \<and>
           2 * \<bar>q * 2 ^ e - \<bar>i\<bar>\<bar> \<le> 2 ^ e \<and> (2 * \<bar>q * 2 ^ e - \<bar>i\<bar>\<bar> = 2 ^ e \<longrightarrow> even q)"
proof -
  define a where "a = \<bar>i\<bar>"
  define e where "e = significand_shift a 0"
  define p :: int where "p = 2 ^ e"
  define h :: int where "h = 2 ^ (e - 1)"
  define q where "q = a div p"
  define r where "r = a mod p"
  define q' where "q' = (if h < r \<or> (r = h \<and> odd q) then q + 1 else q)"
  have a64: "a < 2 ^ 64" using hi by (simp add: a_def)
  have a52: "2 ^ (52 + 0) \<le> a" using lo by (simp add: a_def)
  from significand_shift_bounds [OF a52 a64]
  have e11: "e \<le> 11" and el: "2 ^ (52 + e) \<le> a" and eu: "a < 2 ^ (53 + e)"
    by (simp_all add: e_def)
  have e1: "1 \<le> e"
  proof (rule ccontr)
    assume "\<not> 1 \<le> e"
    then have "e = 0" by simp
    with eu lo show False by (simp add: a_def)
  qed
  have ppos: "0 < p" by (simp add: p_def)
  have ph: "p = 2 * h"
    using e1 by (cases e) (simp_all add: p_def h_def)
  have el': "2 ^ 52 * p \<le> a" using el by (simp add: p_def power_add)
  have eu': "a < 2 ^ 53 * p" using eu by (simp add: p_def power_add)
  have decomp: "a = q * p + r" by (simp add: q_def r_def)
  have r0: "0 \<le> r" and rp: "r < p" using ppos by (simp_all add: r_def)
  have ql: "2 ^ 52 \<le> q"
    unfolding q_def using ppos el' by (rule int_div_lower)
  have qu: "q < 2 ^ 53"
    unfolding q_def using ppos eu' by (rule int_div_upper)
  have rd: "round_to_float64 i = sgn i * (q' * p)"
  proof -
    have n: "\<not> \<bar>i\<bar> < 2 ^ 53" using lo by simp
    show ?thesis
      unfolding round_to_float64_def Let_def q'_def q_def r_def p_def h_def e_def a_def
      by (simp only: n if_False)
  qed
  define qp where "qp = q * p"
  have q'p: "q' * p = (if h < r \<or> (r = h \<and> odd q) then qp + p else qp)"
    by (simp add: q'_def qp_def algebra_simps)
  have near: "2 * \<bar>q' * p - a\<bar> \<le> p"
    using decomp r0 rp ph unfolding q'p qp_def [symmetric] by (auto simp: abs_if)
  have tie: "even q'" if "2 * \<bar>q' * p - a\<bar> = p"
    using that decomp r0 rp ph unfolding q'p qp_def [symmetric]
    by (auto simp: abs_if q'_def split: if_splits)
  have q'b: "2 ^ 52 \<le> q'" "q' \<le> 2 ^ 53"
    using ql qu by (auto simp: q'_def)
  from e1 e11 el eu q'b rd near tie show ?thesis
    unfolding a_def p_def by blast
qed


lemma parse_digits_nonneg: "parse_digits acc cs = Some n \<Longrightarrow> 0 \<le> acc \<Longrightarrow> 0 \<le> n"
  by (induction cs arbitrary: acc) (auto simp: digit_value_def Let_def split: option.splits if_splits)

lemma ParseInt_range: "ParseInt s = Some i \<Longrightarrow> - (2 ^ 63) \<le> i \<and> i < 2 ^ 63"
proof -
  assume a: "ParseInt s = Some i"
  then obtain c cs where s: "s = c # cs" by (cases s) (auto simp: ParseInt_def)
  let ?digits = "if c = CHR ''+'' \<or> c = CHR ''-'' then cs else s"
  from a s obtain un where u: "ParseUint ?digits = Some un"
    by (auto simp: ParseInt_def Let_def split: option.splits)
  then have "0 \<le> un"
    by (auto simp: ParseUint_def dest: parse_digits_nonneg split: if_splits)
  with a s u show ?thesis
    by (auto simp: ParseInt_def Let_def split: if_splits)
qed

lemma parseNumber_int:
  "ParseInt s = Some i \<Longrightarrow> parseNumber L s = Inr (Finite (of_int (round_to_float64 i)))"
  by (simp add: parseNumber_def float64_of_int64_def)

lemmas parse_simps = parseNumber_def ParseInt_def ParseUint_def digit_value_def
  float64_of_int64_def round_to_float64_def

text \<open>
  Claim C5. The numeric operators of \<^verbatim>\<open>compare\<close> work on the float64 numbers that
  \<^verbatim>\<open>parseNumber\<close> gives for the operands, not on the numbers the operands denote:
  \<^item> an operand is parsed as an int64 first, and as a float only when that fails; the
    int \<open>i\<close> becomes the float64 \<open>round_to_float64 i\<close>, which is \<open>i\<close> itself up to \<open>2^53\<close> in
    magnitude and beyond that the nearest multiple \<open>q * 2^e\<close> of \<open>2^e\<close> with a significand
    \<open>q\<close> of 53 bits, the even \<open>q\<close> when \<open>i\<close> lies halfway between two of them;
  \<^item> \<^verbatim>\<open>>\<close> and \<^verbatim>\<open>greater_than\<close> return whether the float64 of the response is greater than
    that of \<^verbatim>\<open>when\<close>, strictly: a number is not greater than itself; for two ints \<open>m\<close> and
    \<open>n\<close> that is \<open>round_to_float64 n < round_to_float64 m\<close>;
  \<^item> \<^verbatim>\<open>in_range\<close> with \<^verbatim>\<open>when\<close> of the form \<^verbatim>\<open>lo-hi\<close>, where neither bound contains a minus
    sign, returns whether \<open>lo \<le> response \<le> hi\<close> on these float64 numbers, both ends
    included;
  \<^item> on finite numbers the two comparisons are the order of the rationals;
  \<^item> if the parse of an operand fails, the result is an error and no boolean.
\<close>

theorem compare_numeric_operators:
  "(ParseInt s = Some i \<longrightarrow>
      parseNumber L s = Inr (Finite (of_int (round_to_float64 i))) \<and> - (2 ^ 63) \<le> i \<and> i < 2 ^ 63) \<and>
   (ParseInt s = None \<longrightarrow> parseNumber L s = ParseFloat L s) \<and>
   (\<bar>i\<bar> \<le> 2 ^ 53 \<longrightarrow> round_to_float64 i = i) \<and>
   (2 ^ 53 \<le> \<bar>i\<bar> \<longrightarrow> \<bar>i\<bar> \<le> 2 ^ 63 \<longrightarrow>
      (\<exists>e q. 1 \<le> e \<and> e \<le> 11 \<and> 2 ^ (52 + e) \<le> \<bar>i\<bar> \<and> \<bar>i\<bar> < 2 ^ (53 + e) \<and>
             2 ^ 52 \<le> q \<and> q \<le> 2 ^ 53 \<and> round_to_float64 i = sgn i * (q * 2 ^ e) \<and>
             2 * \<bar>q * 2 ^ e - \<bar>i\<bar>\<bar> \<le> 2 ^ e \<and> (2 * \<bar>q * 2 ^ e - \<bar>i\<bar>\<bar> = 2 ^ e \<longrightarrow> even q))) \<and>
   (operator = OpGt \<or> operator = OpGreaterThan \<longrightarrow>
      parseNumber L response = Inr x \<longrightarrow> parseNumber L wh = Inr y \<longrightarrow>
        compare L operator response wh = Inr (f64_greater x y) \<and> \<not> f64_greater y y) \<and>
   (operator = OpGt \<or> operator = OpGreaterThan \<longrightarrow>
      ParseInt response = Some m \<longrightarrow> ParseInt wh = Some n \<longrightarrow>
        compare L operator response wh = Inr (round_to_float64 n < round_to_float64 m)) \<and>
   (CHR ''-'' \<notin> set lo \<longrightarrow> CHR ''-'' \<notin> set hi \<longrightarrow>
      parseNumber L (TrimSpace L lo) = Inr l \<longrightarrow> parseNumber L (TrimSpace L hi) = Inr h \<longrightarrow>
      parseNumber L response = Inr x \<longrightarrow>
        compare L OpInRange response (lo @ ''-'' @ hi) = Inr (f64_le l x \<and> f64_le x h)) \<and>
   (CHR ''-'' \<notin> set lo \<longrightarrow> CHR ''-'' \<notin> set hi \<longrightarrow>
      ParseInt (TrimSpace L lo) = Some a \<longrightarrow> ParseInt (TrimSpace L hi) = Some b \<longrightarrow>
      ParseInt response = Some m \<longrightarrow>
        compare L OpInRange response (lo @ ''-'' @ hi)
          = Inr (round_to_float64 a \<le> round_to_float64 m \<and> round_to_float64 m \<le> round_to_float64 b)) \<and>
   (f64_greater (Finite u) (Finite v) = (v < u) \<and> f64_le (Finite u) (Finite v) = (u \<le> v)) \<and>
   (operator \<in> {OpGt, OpGreaterThan, OpLt, OpLessThan} \<longrightarrow>
      (\<exists>err. parseNumber L response = Inl err) \<or> (\<exists>err. parseNumber L wh = Inl err) \<longrightarrow>
        (\<exists>err. compare L operator response wh = Inl err)) \<and>
   (CHR ''-'' \<notin> set lo \<longrightarrow> CHR ''-'' \<notin> set hi \<longrightarrow>
      (\<exists>err. parseNumber L (TrimSpace L lo) = Inl err) \<or>
      (\<exists>err. parseNumber L (TrimSpace L hi) = Inl err) \<or>
      (\<exists>err. parseNumber L response = Inl err) \<longrightarrow>
        (\<exists>err. compare L OpInRange response (lo @ ''-'' @ hi) = Inl err))"
proof (intro conjI impI)
  show "f64_greater (Finite u) (Finite v) = (v < u)" by (simp add: f64_greater_def)
  show "f64_le (Finite u) (Finite v) = (u \<le> v)" by simp
  show "\<not> f64_greater y y" by (simp add: f64_greater_def f64_less_irrefl)
next
  assume "ParseInt s = Some i"
  then show "parseNumber L s = Inr (Finite (of_int (round_to_float64 i)))"
    by (rule parseNumber_int)
next
  assume "ParseInt s = Some i"
  then have "- (2 ^ 63) \<le> i \<and> i < 2 ^ 63" by (rule ParseInt_range)
  then show "- (2 ^ 63) \<le> i" "i < 2 ^ 63" by simp_all
next
  assume "ParseInt s = None"
  then show "parseNumber L s = ParseFloat L s"
    by (simp add: parseNumber_def)
next
  assume "\<bar>i\<bar> \<le> 2 ^ 53"
  then show "round_to_float64 i = i" by (rule round_to_float64_exact)
next
  assume "2 ^ 53 \<le> \<bar>i\<bar>" "\<bar>i\<bar> \<le> 2 ^ 63"
  then show "\<exists>e q. 1 \<le> e \<and> e \<le> 11 \<and> 2 ^ (52 + e) \<le> \<bar>i\<bar> \<and> \<bar>i\<bar> < 2 ^ (53 + e) \<and>
             2 ^ 52 \<le> q \<and> q \<le> 2 ^ 53 \<and> round_to_float64 i = sgn i * (q * 2 ^ e) \<and>
             2 * \<bar>q * 2 ^ e - \<bar>i\<bar>\<bar> \<le> 2 ^ e \<and> (2 * \<bar>q * 2 ^ e - \<bar>i\<bar>\<bar> = 2 ^ e \<longrightarrow> even q)"
    by (rule round_to_float64_nearest)
next
  assume "operator = OpGt \<or> operator = OpGreaterThan"
    and "parseNumber L response = Inr x" "parseNumber L wh = Inr y"
  then show "compare L operator response wh = Inr (f64_greater x y)"
    by (simp add: compare_greater)
next
  assume "operator = OpGt \<or> operator = OpGreaterThan"
    and "ParseInt response = Some m" "ParseInt wh = Some n"
  then show "compare L operator response wh = Inr (round_to_float64 n < round_to_float64 m)"
    by (simp add: compare_greater parseNumber_int f64_greater_def)
next
  assume "CHR ''-'' \<notin> set lo" "CHR ''-'' \<notin> set hi"
    and "parseNumber L (TrimSpace L lo) = Inr l" "parseNumber L (TrimSpace L hi) = Inr h"
      "parseNumber L response = Inr x"
  then show "compare L OpInRange response (lo @ ''-'' @ hi) = Inr (f64_le l x \<and> f64_le x h)"
    by (simp add: compare_in_range_two_parts [OF Split_two] f64_ge_def)
next
  assume "CHR ''-'' \<notin> set lo" "CHR ''-'' \<notin> set hi"
    and "ParseInt (TrimSpace L lo) = Some a" "ParseInt (TrimSpace L hi) = Some b"
      "ParseInt response = Some m"
  then show "compare L OpInRange response (lo @ ''-'' @ hi)
          = Inr (round_to_float64 a \<le> round_to_float64 m \<and> round_to_float64 m \<le> round_to_float64 b)"
    by (simp add: compare_in_range_two_parts [OF Split_two] f64_ge_def parseNumber_int)
next
  assume ops: "operator \<in> {OpGt, OpGreaterThan, OpLt, OpLessThan}"
    and bad: "(\<exists>err. parseNumber L response = Inl err) \<or> (\<exists>err. parseNumber L wh = Inl err)"
  from ops consider "operator = OpGt \<or> operator = OpGreaterThan" | "operator = OpLt \<or> operator = OpLessThan"
    by blast
  then show "\<exists>err. compare L operator response wh = Inl err"
  proof cases
    case 1
    with bad show ?thesis by (auto simp: compare_greater split: sum.splits)
  next
    case 2
    with bad show ?thesis by (auto simp: compare_less split: sum.splits)
  qed
next
  assume "CHR ''-'' \<notin> set lo" "CHR ''-'' \<notin> set hi"
    and "(\<exists>err. parseNumber L (TrimSpace L lo) = Inl err) \<or>
         (\<exists>err. parseNumber L (TrimSpace L hi) = Inl err) \<or>
         (\<exists>err. parseNumber L response = Inl err)"
  then show "\<exists>err. compare L OpInRange response (lo @ ''-'' @ hi) = Inl err"
    by (auto simp: compare_in_range_two_parts [OF Split_two] split: sum.splits)
qed

text \<open>
  The theorem at \<^verbatim>\<open>73 > 50\<close>, \<^verbatim>\<open>50 > 50\<close>, at the range \<^verbatim>\<open>11-50\<close> with the responses 50, 11
  and 51, at the response \<^verbatim>\<open>high\<close>, which is no number, and at the int \<open>2^53 + 1\<close>, which
  the conversion rounds to \<open>2^53\<close>.
\<close>

theorem compare_numeric_operators_witness:
  "compare example_lib OpGt ''73'' ''50'' = Inr True \<and>
   compare example_lib OpGt ''50'' ''50'' = Inr False \<and>
   compare example_lib OpInRange ''50'' ''11-50'' = Inr True \<and>
   compare example_lib OpInRange ''11'' ''11-50'' = Inr True \<and>
   compare example_lib OpInRange ''51'' ''11-50'' = Inr False \<and>
   (\<exists>err. compare example_lib OpLessThan ''high'' ''50'' = Inl err) \<and>
   (\<exists>err. compare example_lib OpInRange ''high'' ''11-50'' = Inl err) \<and>
   parseNumber example_lib ''42'' = Inr (Finite 42) \<and>
   parseNumber example_lib ''high'' = ParseFloat example_lib ''high'' \<and>
   round_to_float64 9007199254740993 = 9007199254740992 \<and>
   parseNumber example_lib ''9007199254740993'' = Inr (Finite 9007199254740992) \<and>
   compare example_lib OpGt ''9007199254740993'' ''9007199254740992'' = Inr False \<and>
   compare example_lib OpInRange ''9007199254740993'' ''0-9007199254740992'' = Inr True"
proof -
  have n: "parseNumber example_lib ''73'' = Inr (Finite 73)"
    "parseNumber example_lib ''50'' = Inr (Finite 50)"
    "parseNumber example_lib ''11'' = Inr (Finite 11)"
    "parseNumber example_lib ''51'' = Inr (Finite 51)"
    by (simp_all add: parse_simps)
  have t: "TrimSpace example_lib ''11'' = ''11''" "TrimSpace example_lib ''50'' = ''50''"
    "TrimSpace example_lib ''0'' = ''0''"
    "TrimSpace example_lib ''9007199254740992'' = ''9007199254740992''"
    by (simp_all add: example_lib_def ascii_space_def)
  have bad: "\<exists>err. parseNumber example_lib ''high'' = Inl err"
    by (simp add: parse_simps example_lib_def)
  have i: "ParseInt ''42'' = Some 42" "ParseInt ''high'' = None"
    "ParseInt ''9007199254740993'' = Some 9007199254740993"
    "ParseInt ''9007199254740992'' = Some 9007199254740992"
    "ParseInt ''0'' = Some 0"
    by (simp_all add: ParseInt_def ParseUint_def digit_value_def)
  have d: "CHR ''-'' \<notin> set ''11''" "CHR ''-'' \<notin> set ''50''"
    "CHR ''-'' \<notin> set ''0''" "CHR ''-'' \<notin> set ''9007199254740992''"
    by simp_all
  note T = compare_numeric_operators [where L = example_lib and lo = "''11''" and hi = "''50''"
      and l = "Finite 11" and h = "Finite 50"]
  from T [where operator = OpGt and response = "''73''" and wh = "''50''" and x = "Finite 73" and y = "Finite 50"] n
  have 1: "compare example_lib OpGt ''73'' ''50'' = Inr True"
    by (simp add: f64_greater_def)
  from T [where operator = OpGt and response = "''50''" and wh = "''50''" and x = "Finite 50" and y = "Finite 50"] n
  have 2: "compare example_lib OpGt ''50'' ''50'' = Inr False"
    by (simp add: f64_greater_def)
  from T [where response = "''50''" and x = "Finite 50"] n t d
  have 3: "compare example_lib OpInRange ''50'' ''11-50'' = Inr True"
    by simp
  from T [where response = "''11''" and x = "Finite 11"] n t d
  have 4: "compare example_lib OpInRange ''11'' ''11-50'' = Inr True"
    by simp
  from T [where response = "''51''" and x = "Finite 51"] n t d
  have 5: "compare example_lib OpInRange ''51'' ''11-50'' = Inr False"
    by simp
  from T [where operator = OpLessThan and response = "''high''" and wh = "''50''"] bad
  have 6: "\<exists>err. compare example_lib OpLessThan ''high'' ''50'' = Inl err"
    by simp
  from T [where response = "''high''"] bad d
  have 7: "\<exists>err. compare example_lib OpInRange ''high'' ''11-50'' = Inl err"
    by simp
  from T [where s = "''42''" and i = 42] i
  have 8: "parseNumber example_lib ''42'' = Inr (Finite 42)"
    by simp
  from T [where s = "''high''"] i
  have 9: "parseNumber example_lib ''high'' = ParseFloat example_lib ''high''"
    by simp
  note B = compare_numeric_operators [where L = example_lib and s = "''9007199254740993''"
      and i = 9007199254740993 and lo = "''0''" and hi = "''9007199254740992''"
      and response = "''9007199254740993''" and wh = "''9007199254740992''" and operator = OpGt
      and m = 9007199254740993 and n = 9007199254740992 and a = 0 and b = 9007199254740992]
  have "\<exists>e q. 1 \<le> e \<and> e \<le> 11 \<and> 2 ^ (52 + e) \<le> \<bar>9007199254740993::int\<bar> \<and>
      \<bar>9007199254740993::int\<bar> < 2 ^ (53 + e) \<and> 2 ^ 52 \<le> q \<and> q \<le> 2 ^ 53 \<and>
      round_to_float64 9007199254740993 = sgn 9007199254740993 * (q * 2 ^ e) \<and>
      2 * \<bar>q * 2 ^ e - \<bar>9007199254740993\<bar>\<bar> \<le> 2 ^ e \<and>
      (2 * \<bar>q * 2 ^ e - \<bar>9007199254740993\<bar>\<bar> = 2 ^ e \<longrightarrow> even q)"
    by (rule B [THEN conjunct2, THEN conjunct2, THEN conjunct2, THEN conjunct1, rule_format])
      simp_all
  then obtain e :: nat and q :: int where e: "1 \<le> e"
    and lo: "2 ^ (52 + e) \<le> \<bar>9007199254740993::int\<bar>"
    and r: "round_to_float64 9007199254740993 = sgn 9007199254740993 * (q * 2 ^ e)"
    and near: "2 * \<bar>q * 2 ^ e - \<bar>9007199254740993\<bar>\<bar> \<le> 2 ^ e"
    and tie: "2 * \<bar>q * 2 ^ e - \<bar>9007199254740993\<bar>\<bar> = 2 ^ e \<longrightarrow> even q"
    by blast
  have "e < 2"
  proof (rule ccontr)
    assume "\<not> e < 2"
    then have "(2::int) ^ 54 \<le> 2 ^ (52 + e)" by (intro power_increasing) simp_all
    with lo show False by simp
  qed
  with e have e1: "e = 1" by simp
  from near tie have "q = 4503599627370496" unfolding e1 by simp presburger
  with r e1 have 10: "round_to_float64 9007199254740993 = 9007199254740992" by simp
  from B i 10 have 11: "parseNumber example_lib ''9007199254740993'' = Inr (Finite 9007199254740992)"
    by simp
  from compare_numeric_operators [where i = 9007199254740992] 
  have ex: "round_to_float64 9007199254740992 = 9007199254740992" by simp
  from compare_numeric_operators [where i = 0] 
  have ex0: "round_to_float64 0 = 0" by simp
  from B i have "compare example_lib OpGt ''9007199254740993'' ''9007199254740992''
      = Inr (round_to_float64 9007199254740992 < round_to_float64 9007199254740993)"
    by simp
  with 10 ex have 12: "compare example_lib OpGt ''9007199254740993'' ''9007199254740992'' = Inr False"
    by simp
  from B i t d have "compare example_lib OpInRange ''9007199254740993'' ''0-9007199254740992''
      = Inr (round_to_float64 0 \<le> round_to_float64 9007199254740993 \<and>
             round_to_float64 9007199254740993 \<le> round_to_float64 9007199254740992)"
    by simp
  with 10 ex ex0 have 13: "compare example_lib OpInRange ''9007199254740993'' ''0-9007199254740992'' = Inr True"
    by simp
  from 1 2 3 4 5 6 7 8 9 10 11 12 13 show ?thesis by blast
qed

text \<open>
  On the numbers the operands denote the comparison is another one: \<open>2^53 + 1\<close> is
  greater than \<open>2^53\<close> and outside the range \<^verbatim>\<open>0-9007199254740992\<close>, but \<^verbatim>\<open>>\<close> returns false
  and \<^verbatim>\<open>in_range\<close> returns true, as both numbers are the same float64. And 0 lies
  between -5 and 10, but \<^verbatim>\<open>in_range\<close> with \<^verbatim>\<open>-5-10\<close> returns an error.
\<close>

theorem compare_numeric_counterexample:
  "ParseInt ''9007199254740993'' = Some 9007199254740993 \<and>
   ParseInt ''9007199254740992'' = Some 9007199254740992 \<and>
   compare example_lib OpGt ''9007199254740993'' ''9007199254740992'' = Inr False \<and>
   compare example_lib OpInRange ''9007199254740993'' ''0-9007199254740992'' = Inr True \<and>
   ParseInt ''-5'' = Some (- 5) \<and> ParseInt ''10'' = Some 10 \<and> ParseInt ''0'' = Some 0 \<and>
   compare example_lib OpInRange ''0'' ''-5-10'' = Inl (InvalidRangeFormat ''-5-10'')"
  by (simp add: compare_def parse_simps significand_shift.simps f64_greater_def f64_ge_def
      example_lib_def ascii_space_def)

subsection \<open>The order of the branches\<close>

lemma explicit_match_passes:
  "\<forall>ct \<in> set pre. passes_over L eval ct \<Longrightarrow>
   explicit_match L (pre @ rest) eval = explicit_match L rest eval"
  by (induction pre) (auto simp: passes_over_def)

lemma explicit_match_none:
  "\<forall>ct \<in> set cts. passes_over L eval ct \<Longrightarrow> explicit_match L cts eval = Inr None"
  using explicit_match_passes [of cts L eval "[]"] by simp

lemma default_goto_find:
  "default_goto cts = map_option Goto (find (\<lambda>ct. Operator ct = OpDefault) cts)"
  by (induction cts) auto

text \<open>
  Claim C3, as amended. \<^verbatim>\<open>evaluateTransitions\<close> looks at the non-default branches in the
  declared order and stops at the first one whose comparison returns true or fails:
  \<^item> if every branch before \<open>ct\<close> is a default branch or compares false, and \<open>ct\<close> is a
    non-default branch that matches, the result is the goto of \<open>ct\<close>, wherever the
    default branches stand in the list;
  \<^item> if instead the comparison of \<open>ct\<close> fails, the result is that error, whatever the
    later branches are;
  \<^item> if every branch is a default branch or compares false, the result is the goto of the
    first default branch, and the error \<^verbatim>\<open>no matching transition found\<close> when there is none.
\<close>

theorem evaluateTransitions_first_decisive_branch:
  "(Branches transition = pre @ ct # post \<longrightarrow> (\<forall>c \<in> set pre. passes_over L eval c) \<longrightarrow>
      Operator ct \<noteq> OpDefault \<longrightarrow>
      (compare L (Operator ct) eval (When ct) = Inr True \<longrightarrow>
         evaluateTransitions L transition eval = Inr (Goto ct)) \<and>
      (compare L (Operator ct) eval (When ct) = Inl err \<longrightarrow>
         evaluateTransitions L transition eval = Inl err)) \<and>
   ((\<forall>c \<in> set (Branches transition). passes_over L eval c) \<longrightarrow>
      evaluateTransitions L transition eval =
        (case find (\<lambda>c. Operator c = OpDefault) (Branches transition) of
           Some d \<Rightarrow> Inr (Goto d)
         | None \<Rightarrow> Inl NoMatchingTransition))"
proof (intro conjI impI)
  assume b: "Branches transition = pre @ ct # post" and p: "\<forall>c \<in> set pre. passes_over L eval c"
    and nd: "Operator ct \<noteq> OpDefault"
  have m: "explicit_match L (Branches transition) eval = explicit_match L (ct # post) eval"
    using explicit_match_passes [OF p] b by simp
  show "evaluateTransitions L transition eval = Inr (Goto ct)"
    if "compare L (Operator ct) eval (When ct) = Inr True"
    using that nd m by (simp add: evaluateTransitions_def)
  show "evaluateTransitions L transition eval = Inl err"
    if "compare L (Operator ct) eval (When ct) = Inl err"
    using that nd m by (simp add: evaluateTransitions_def)
next
  assume "\<forall>c \<in> set (Branches transition). passes_over L eval c"
  then show "evaluateTransitions L transition eval =
        (case find (\<lambda>c. Operator c = OpDefault) (Branches transition) of
           Some d \<Rightarrow> Inr (Goto d)
         | None \<Rightarrow> Inl NoMatchingTransition)"
    by (simp add: evaluateTransitions_def explicit_match_none default_goto_find split: option.splits)
qed

lemma compare_gt_low:
  "compare example_lib OpGt ''low'' ''50'' = Inl (ExternalError ''strconv.ParseFloat: invalid syntax'')"
  by (simp add: compare_def parse_simps example_lib_def)

lemma compare_gt_42: "compare example_lib OpGt ''42'' ''50'' = Inr False"
  by (simp add: compare_def parse_simps f64_greater_def)

text \<open>
  Claim C3 as stated fails: with the branches \<^verbatim>\<open>> 50\<close>, \<^verbatim>\<open>equals low\<close> and a default, the
  evaluation \<^verbatim>\<open>low\<close> matches the second branch, yet the result is the parse error of the
  first and neither the goto of the matching branch nor that of the default; and with the
  single branch \<^verbatim>\<open>> 50\<close> no branch matches and there is no default, yet the error is not
  \<^verbatim>\<open>no matching transition found\<close>.
\<close>

theorem evaluateTransitions_counterexample:
  "compare example_lib OpEquals ''low'' ''low'' = Inr True \<and>
   evaluateTransitions example_lib
     \<lparr>OnFailure = [], Branches = [mk_branch OpGt ''50'' ''high'', mk_branch OpEquals ''low'' ''low_task'',
                                   mk_branch OpDefault [] ''fallback'']\<rparr> ''low''
     = Inl (ExternalError ''strconv.ParseFloat: invalid syntax'') \<and>
   evaluateTransitions example_lib \<lparr>OnFailure = [], Branches = [mk_branch OpGt ''50'' ''high'']\<rparr> ''low''
     \<noteq> Inl NoMatchingTransition"
  by (simp add: evaluateTransitions_def mk_branch_def compare_gt_low) (simp add: compare_def)

text \<open>
  The theorem at the evaluation \<^verbatim>\<open>42\<close>: a match behind a default branch, a failing
  comparison behind a default branch, and a default branch behind a branch that compares
  false.
\<close>

theorem evaluateTransitions_witness:
  "evaluateTransitions example_lib
     \<lparr>OnFailure = [], Branches = [mk_branch OpDefault [] ''fallback'', mk_branch OpGt ''50'' ''high'',
                                   mk_branch OpEquals ''42'' ''answer'']\<rparr> ''42'' = Inr ''answer'' \<and>
   evaluateTransitions example_lib
     \<lparr>OnFailure = [], Branches = [mk_branch OpDefault [] ''fallback'', mk_branch OpGt ''50'' ''high'',
                                   mk_branch OpGt ''x'' ''answer'']\<rparr> ''42''
     = Inl (ExternalError ''strconv.ParseFloat: invalid syntax'') \<and>
   evaluateTransitions example_lib
     \<lparr>OnFailure = [], Branches = [mk_branch OpGt ''50'' ''high'', mk_branch OpDefault [] ''fallback'']\<rparr> ''42''
     = Inr ''fallback''"
proof -
  let ?d = "mk_branch OpDefault [] ''fallback''" and ?g = "mk_branch OpGt ''50'' ''high''"
  have p: "\<forall>c \<in> set [?d, ?g]. passes_over example_lib ''42'' c"
    by (simp add: passes_over_def mk_branch_def compare_gt_42)
  have q: "\<forall>c \<in> set [?g, ?d]. passes_over example_lib ''42'' c"
    by (simp add: passes_over_def mk_branch_def compare_gt_42)
  have e: "compare example_lib OpEquals ''42'' ''42'' = Inr True"
    by (simp add: compare_def)
  have x: "compare example_lib OpGt ''42'' ''x'' = Inl (ExternalError ''strconv.ParseFloat: invalid syntax'')"
    by (simp add: compare_def parse_simps example_lib_def)
  from evaluateTransitions_first_decisive_branch [where L = example_lib and eval = "''42''"
      and transition = "\<lparr>OnFailure = [], Branches = [?d, ?g, mk_branch OpEquals ''42'' ''answer'']\<rparr>"
      and pre = "[?d, ?g]" and ct = "mk_branch OpEquals ''42'' ''answer''" and post = "[]"] p e
  have 1: "evaluateTransitions example_lib
     \<lparr>OnFailure = [], Branches = [?d, ?g, mk_branch OpEquals ''42'' ''answer'']\<rparr> ''42'' = Inr ''answer''"
    by (simp add: mk_branch_def)
  from evaluateTransitions_first_decisive_branch [where L = example_lib and eval = "''42''"
      and transition = "\<lparr>OnFailure = [], Branches = [?d, ?g, mk_branch OpGt ''x'' ''answer'']\<rparr>"
      and pre = "[?d, ?g]" and ct = "mk_branch OpGt ''x'' ''answer''" and post = "[]"
      and err = "ExternalError ''strconv.ParseFloat: invalid syntax''"] p x
  have 2: "evaluateTransitions example_lib
     \<lparr>OnFailure = [], Branches = [?d, ?g, mk_branch OpGt ''x'' ''answer'']\<rparr> ''42''
       = Inl (ExternalError ''strconv.ParseFloat: invalid syntax'')"
    by (simp add: mk_branch_def)
  from evaluateTransitions_first_decisive_branch [where L = example_lib and eval = "''42''"
      and transition = "\<lparr>OnFailure = [], Branches = [?g, ?d]\<rparr>"] q
  have 3: "evaluateTransitions example_lib \<lparr>OnFailure = [], Branches = [?g, ?d]\<rparr> ''42'' = Inr ''fallback''"
    by (simp add: mk_branch_def)
  from 1 2 3 show ?thesis by simp
qed

section \<open>Properties of the engine\<close>

subsection \<open>Validation\<close>

lemma validate_ids_None_iff:
  "validate_ids ts = None \<longleftrightarrow> (\<forall>t \<in> set ts. ID t \<noteq> [] \<and> ID t \<noteq> TermEnd)"
  by (induction ts) auto

text \<open>
  Claim C2, as amended. \<^verbatim>\<open>validateChain\<close> rejects the empty task list, and it accepts a
  non-empty list exactly when no task id is the empty string or \<^verbatim>\<open>end\<close>; it checks nothing
  else. When it rejects the chain (and the routing strategy is empty or parses),
  \<^verbatim>\<open>ExecEnv\<close> returns its error in the initial state: the executor has not been called
  and the tracker has received nothing.
\<close>

theorem validateChain_checks_ids_only:
  "validateChain [] = Some ChainHasNoTasks \<and>
   (validateChain tasks = None \<longleftrightarrow> tasks \<noteq> [] \<and> (\<forall>t \<in> set tasks. ID t \<noteq> [] \<and> ID t \<noteq> TermEnd)) \<and>
   (validateChain (Tasks chain) = Some err \<longrightarrow>
      RoutingStrategy chain = [] \<or> (\<exists>p. PolicyFromString L (RoutingStrategy chain) = Inr p) \<longrightarrow>
        ExecEnv L exec chain input dataType x = Some (Inl err, initial_state input dataType x))"
proof (intro conjI impI)
  show "validateChain [] = Some ChainHasNoTasks"
    by (simp add: validateChain_def)
  show "validateChain tasks = None \<longleftrightarrow> tasks \<noteq> [] \<and> (\<forall>t \<in> set tasks. ID t \<noteq> [] \<and> ID t \<noteq> TermEnd)"
    by (simp add: validateChain_def validate_ids_None_iff)
next
  assume "validateChain (Tasks chain) = Some err"
    and "RoutingStrategy chain = [] \<or> (\<exists>p. PolicyFromString L (RoutingStrategy chain) = Inr p)"
  then show "ExecEnv L exec chain input dataType x = Some (Inl err, initial_state input dataType x)"
    by (auto simp: ExecEnv_def exec_with_def)
qed

lemmas run_simps = ExecEnv_def exec_with_def validateChain_def initial_state_def visit_def
  render_prompt_def max_int64_def timeout_error_def attempt_def emit_def defer_end_def
  after_attempts_def handle_print_def evaluateTransitions_def run_deferred_def
  TaskExec_def mock_def failing_mock_def mk_task_def mk_chain_def mk_branch_def example_lib_def
  observable_def mainLoop.simps retryLoop.simps

text \<open>
  Claim C2 as stated fails: a chain whose two tasks share the id \<^verbatim>\<open>a\<close> and whose first
  task goes to \<^verbatim>\<open>nowhere\<close>, which is neither a task nor \<^verbatim>\<open>end\<close>, passes \<^verbatim>\<open>validateChain\<close>.
  \<^verbatim>\<open>ExecEnv\<close> runs its first task and fails only afterwards, when the transition is
  looked up.
\<close>

theorem validateChain_counterexample:
  "validateChain [mk_task ''a'' 0 [] [mk_branch OpDefault [] ''nowhere''],
                  mk_task ''a'' 0 [] [mk_branch OpDefault [] ''end'']] = None \<and>
   observable (ExecEnv example_lib TaskExec
     (mk_chain [] [mk_task ''a'' 0 [] [mk_branch OpDefault [] ''nowhere''],
                mk_task ''a'' 0 [] [mk_branch OpDefault [] ''end'']])
     (AnyString ''hello'') DataTypeAny (mock (AnyString ''hello'') ''hello'' None))
   = Some (Inl (NextTaskNotFound ''nowhere'' (TaskNotFound ''nowhere'')), [],
       [Start ''task_attempt'' ''a'' [(''retry'', AnyInt 0), (''task_type'', AnyString ''raw_string'')],
        ReportChange ''task_attempt'' ''a'' ''a'' (AnyString ''hello''),
        Start ''next_task'' ''a'' [(''next_task'', AnyString ''nowhere'')],
        ReportChange ''next_task'' ''a'' ''nowhere'' (AnyString ''hello''),
        End ''next_task'' ''a'', End ''task_attempt'' ''a''])"
  by (simp add: run_simps)

text \<open>
  The theorem at the empty list, at two well-named tasks, and at a chain with a task
  named \<^verbatim>\<open>end\<close>.
\<close>

theorem validateChain_witness:
  "validateChain [] = Some ChainHasNoTasks \<and>
   validateChain [mk_task ''a'' 0 [] [], mk_task ''b'' 0 [] []] = None \<and>
   ExecEnv example_lib TaskExec (mk_chain [] [mk_task ''a'' 0 [] [], mk_task ''end'' 0 [] []])
     (AnyString ''hello'') DataTypeAny (mock (AnyString ''hello'') ''hello'' None)
   = Some (Inl TaskIDIsTermEnd, initial_state (AnyString ''hello'') DataTypeAny (mock (AnyString ''hello'') ''hello'' None))"
proof -
  let ?c = "mk_chain [] [mk_task ''a'' 0 [] [], mk_task ''end'' 0 [] []]"
  have v: "validateChain (Tasks ?c) = Some TaskIDIsTermEnd"
    by (simp add: validateChain_def mk_chain_def mk_task_def)
  have r: "RoutingStrategy ?c = []"
    by (simp add: mk_chain_def)
  have i: "[mk_task ''a'' 0 [] [], mk_task ''b'' 0 [] []] \<noteq> [] \<and>
      (\<forall>t \<in> set [mk_task ''a'' 0 [] [], mk_task ''b'' 0 [] []]. ID t \<noteq> [] \<and> ID t \<noteq> TermEnd)"
    by (simp add: mk_task_def)
  from validateChain_checks_ids_only [where chain = ?c and err = TaskIDIsTermEnd and L = example_lib
      and exec = TaskExec and input = "AnyString ''hello''" and dataType = DataTypeAny
      and x = "mock (AnyString ''hello'') ''hello'' None" and tasks = "[mk_task ''a'' 0 [] [], mk_task ''b'' 0 [] []]"] v r i
  show ?thesis by blast
qed

subsection \<open>The retry loop\<close>

lemma sint_succ: "sint (k :: 64 word) < 2 ^ 63 - 1 \<Longrightarrow> sint (k + 1) = sint k + 1"
proof -
  assume a: "sint k < 2 ^ 63 - 1"
  have b: "- (2 ^ 63) \<le> sint k" using sint_ge [of k] by simp
  have "sint (k + 1) = signed_take_bit 63 (sint k + 1)"
    by (simp add: sint_word_ariths)
  also have "\<dots> = sint k + 1"
    using a b by (intro signed_take_bit_int_eq_self) auto
  finally show ?thesis .
qed

lemma sint_max_int64: "sint (max_int64 a 0) = max (sint a) 0"
  by (simp add: max_int64_def)

lemma max_int64_negative: "sint a < 0 \<Longrightarrow> max_int64 a 0 = 0"
  by (simp add: max_int64_def)

lemma attempts_attempt:
  "attempts (ID t) (tracker (attempt exec res t k s)) = Suc (attempts (ID t) (tracker s))"
  by (simp add: attempt_def attempts_def emit_def defer_end_def Let_def split: prod.splits option.splits)

lemma attempt_frame:
  "vars (attempt exec res t k s) = vars s" "stdout (attempt exec res t k s) = stdout s"
  by (simp_all add: attempt_def emit_def defer_end_def Let_def split: prod.splits option.splits)

lemma attempt_always_fails:
  "always_fails exec t I \<Longrightarrow> I (executor s) \<Longrightarrow>
   taskErr (attempt exec res t k s) \<noteq> None \<and> I (executor (attempt exec res t k s))"
  unfolding always_fails_def attempt_def
  by (simp add: emit_def defer_end_def Let_def split: prod.splits option.splits) fastforce

lemma retryLoop_exit: "\<not> sint k \<le> sint m \<Longrightarrow> retryLoop L exec res t m k s = Some (None, s)"
  by (subst retryLoop.simps) simp

lemma retryLoop_bad_timeout:
  "sint k \<le> sint m \<Longrightarrow> timeout_error L t = Some err \<Longrightarrow>
   retryLoop L exec res t m k s = Some (Some err, s)"
  by (subst retryLoop.simps) simp

lemma retryLoop_success:
  "sint k \<le> sint m \<Longrightarrow> timeout_error L t = None \<Longrightarrow> taskErr (attempt exec res t k s) = None \<Longrightarrow>
   retryLoop L exec res t m k s = Some (None, attempt exec res t k s)"
  by (subst retryLoop.simps) simp

lemma retryLoop_retry:
  "sint k \<le> sint m \<Longrightarrow> timeout_error L t = None \<Longrightarrow> taskErr (attempt exec res t k s) \<noteq> None \<Longrightarrow>
   retryLoop L exec res t m k s = retryLoop L exec res t m (k + 1) (attempt exec res t k s)"
  by (subst retryLoop.simps) simp

lemma retryLoop_terminates:
  assumes m: "sint m < 2 ^ 63 - 1"
  shows "sint k \<le> sint m + 1 \<Longrightarrow>
    \<exists>r s'. retryLoop L exec res t m k s = Some (r, s') \<and>
       attempts (ID t) (tracker s') \<le> attempts (ID t) (tracker s) + nat (sint m + 1 - sint k)"
proof (induction "nat (sint m + 1 - sint k)" arbitrary: k s)
  case 0
  then have "\<not> sint k \<le> sint m" by simp
  then show ?case by (simp add: retryLoop_exit)
next
  case (Suc n)
  then have le: "sint k \<le> sint m" by linarith
  show ?case
  proof (cases "timeout_error L t")
    case (Some err)
    with le show ?thesis by (simp add: retryLoop_bad_timeout)
  next
    case None
    show ?thesis
    proof (cases "taskErr (attempt exec res t k s) = None")
      case True
      with le None Suc.hyps(2) show ?thesis
        by (simp add: retryLoop_success attempts_attempt)
    next
      case False
      from le m have k1: "sint (k + 1) = sint k + 1" by (intro sint_succ) linarith
      with Suc.hyps(2) have n: "n = nat (sint m + 1 - sint (k + 1))" by linarith
      from k1 le have "sint (k + 1) \<le> sint m + 1" by simp
      from Suc.hyps(1) [OF n this, of "attempt exec res t k s"]
      obtain r s' where "retryLoop L exec res t m (k + 1) (attempt exec res t k s) = Some (r, s')"
        and "attempts (ID t) (tracker s') \<le> attempts (ID t) (tracker (attempt exec res t k s))
               + nat (sint m + 1 - sint (k + 1))"
        by blast
      with le None False k1 Suc.hyps(2) show ?thesis
        by (simp add: retryLoop_retry attempts_attempt)
    qed
  qed
qed

lemma retryLoop_exhausts:
  assumes m: "sint m < 2 ^ 63 - 1" and f: "always_fails exec t I" and to: "timeout_error L t = None"
  shows "sint k \<le> sint m \<Longrightarrow> I (executor s) \<Longrightarrow>
    \<exists>s'. retryLoop L exec res t m k s = Some (None, s') \<and> taskErr s' \<noteq> None \<and> I (executor s') \<and>
       vars s' = vars s \<and> stdout s' = stdout s \<and>
       attempts (ID t) (tracker s') = attempts (ID t) (tracker s) + nat (sint m + 1 - sint k)"
proof (induction "nat (sint m - sint k)" arbitrary: k s)
  case 0
  then have eq: "sint k = sint m" by simp
  from attempt_always_fails [OF f "0.prems"(2)]
  have af: "taskErr (attempt exec res t k s) \<noteq> None" "I (executor (attempt exec res t k s))"
    by simp_all
  from eq m have k1: "sint (k + 1) = sint k + 1" by (intro sint_succ) simp
  with eq have "\<not> sint (k + 1) \<le> sint m" by simp
  then have "retryLoop L exec res t m k s = Some (None, attempt exec res t k s)"
    using eq to af by (simp add: retryLoop_retry retryLoop_exit)
  with af eq show ?case
    by (simp add: attempts_attempt attempt_frame)
next
  case (Suc n)
  then have lt: "sint k < sint m" by linarith
  from attempt_always_fails [OF f Suc.prems(2)]
  have af: "taskErr (attempt exec res t k s) \<noteq> None" "I (executor (attempt exec res t k s))"
    by simp_all
  from lt m have k1: "sint (k + 1) = sint k + 1" by (intro sint_succ) linarith
  with Suc.hyps(2) have n: "n = nat (sint m - sint (k + 1))" by linarith
  from k1 lt have "sint (k + 1) \<le> sint m" by simp
  from Suc.hyps(1) [OF n this af(2)]
  obtain s' where "retryLoop L exec res t m (k + 1) (attempt exec res t k s) = Some (None, s')"
    and "taskErr s' \<noteq> None" and "I (executor s')"
    and "vars s' = vars (attempt exec res t k s)" and "stdout s' = stdout (attempt exec res t k s)"
    and "attempts (ID t) (tracker s') = attempts (ID t) (tracker (attempt exec res t k s))
               + nat (sint m + 1 - sint (k + 1))"
    by blast
  with lt to af k1 show ?case
    by (simp add: retryLoop_retry attempts_attempt attempt_frame)
qed

lemma retryLoop_diverges:
  assumes m: "sint m = 2 ^ 63 - 1" and f: "always_fails exec t I" and to: "timeout_error L t = None"
    and i: "I (executor s)"
  shows "retryLoop L exec res t m k s = None"
proof (rule ccontr)
  assume "retryLoop L exec res t m k s \<noteq> None"
  then obtain y where y: "retryLoop L exec res t m k s = Some y" by auto
  have "\<not> (L = L \<and> exec = exec \<and> t = t \<and> m = m \<and> I (executor s))"
  proof (rule retryLoop.raw_induct [where P = "\<lambda>L' exec' res' t' m' k' s' y'.
      \<not> (L' = L \<and> exec' = exec \<and> t' = t \<and> m' = m \<and> I (executor s'))", OF _ y])
    fix rl L' exec' res' t' m' k' s' y'
    assume IH: "\<And>L' exec' res' t' m' k' s' y'. rl L' exec' res' t' m' k' s' = Some y' \<Longrightarrow>
        \<not> (L' = L \<and> exec' = exec \<and> t' = t \<and> m' = m \<and> I (executor s'))"
      and body: "(if sint k' \<le> sint m'
          then case timeout_error L' t' of
               None \<Rightarrow>
                 if taskErr (attempt exec' res' t' k' s') \<noteq> None
                 then rl L' exec' res' t' m' (k' + 1) (attempt exec' res' t' k' s')
                 else Some (None, attempt exec' res' t' k' s')
               | Some err \<Rightarrow> Some (Some err, s')
          else Some (None, s')) = Some y'"
    show "\<not> (L' = L \<and> exec' = exec \<and> t' = t \<and> m' = m \<and> I (executor s'))"
    proof
      assume a: "L' = L \<and> exec' = exec \<and> t' = t \<and> m' = m \<and> I (executor s')"
      have le: "sint k' \<le> sint m'" using a m sint_lt [of k'] by simp
      from a attempt_always_fails [OF f, of s' res' k']
      have af: "taskErr (attempt exec res' t k' s') \<noteq> None" "I (executor (attempt exec res' t k' s'))"
        by simp_all
      from body le a to af
      have "rl L exec res' t m (k' + 1) (attempt exec res' t k' s') = Some y'"
        by simp
      from IH [OF this] af show False by simp
    qed
  qed
  with i show False by simp
qed

lemma TaskExec_always_fails: "always_fails TaskExec t mock_fails"
  by (simp add: always_fails_def TaskExec_def mock_fails_def Let_def)

lemma mock_fails_failing_mock: "mock_fails failing_mock"
  by (simp add: mock_fails_def failing_mock_def mock_def)

text \<open>
  Claim C9, as amended. For a task whose \<^verbatim>\<open>retry_on_failure\<close> is negative the retry count
  is clamped to zero, and if the task's timeout is empty or parses the retry loop makes
  exactly one attempt, whether the attempt fails or not: its result is the state after
  one \<open>attempt\<close>. For every value of \<^verbatim>\<open>retry_on_failure\<close> other than the greatest int64,
  \<open>2^63 - 1\<close>, the loop ends, after at most \<open>max retry_on_failure 0 + 1\<close> attempts.
\<close>

theorem retry_count_clamped:
  "(sint (RetryOnFailure t) < 0 \<longrightarrow> max_int64 (RetryOnFailure t) 0 = 0) \<and>
   (sint (RetryOnFailure t) < 0 \<longrightarrow> timeout_error L t = None \<longrightarrow>
      retryLoop L exec res t (max_int64 (RetryOnFailure t) 0) 0 s = Some (None, attempt exec res t 0 s)) \<and>
   (sint (RetryOnFailure t) < 2 ^ 63 - 1 \<longrightarrow>
      (\<exists>r s'. retryLoop L exec res t (max_int64 (RetryOnFailure t) 0) 0 s = Some (r, s') \<and>
         attempts (ID t) (tracker s') \<le> attempts (ID t) (tracker s) + nat (max (sint (RetryOnFailure t)) 0) + 1))"
proof (intro conjI impI)
  assume "sint (RetryOnFailure t) < 0"
  then show "max_int64 (RetryOnFailure t) 0 = 0" by (rule max_int64_negative)
next
  assume n: "sint (RetryOnFailure t) < 0" and to: "timeout_error L t = None"
  have one: "\<not> sint ((0 :: 64 word) + 1) \<le> sint (0 :: 64 word)" by simp
  show "retryLoop L exec res t (max_int64 (RetryOnFailure t) 0) 0 s = Some (None, attempt exec res t 0 s)"
  proof (cases "taskErr (attempt exec res t 0 s) = None")
    case True
    with to show ?thesis by (simp add: max_int64_negative [OF n] retryLoop_success)
  next
    case False
    with to have "retryLoop L exec res t 0 0 s = retryLoop L exec res t 0 (0 + 1) (attempt exec res t 0 s)"
      by (simp add: retryLoop_retry)
    also have "\<dots> = Some (None, attempt exec res t 0 s)"
      using one by (rule retryLoop_exit)
    finally show ?thesis by (simp add: max_int64_negative [OF n])
  qed
next
  assume "sint (RetryOnFailure t) < 2 ^ 63 - 1"
  then have m: "sint (max_int64 (RetryOnFailure t) 0) < 2 ^ 63 - 1"
    by (simp add: sint_max_int64)
  have z: "sint (0 :: 64 word) \<le> sint (max_int64 (RetryOnFailure t) 0) + 1"
    by (simp add: sint_max_int64)
  from retryLoop_terminates [OF m z, of L exec res t s]
  show "\<exists>r s'. retryLoop L exec res t (max_int64 (RetryOnFailure t) 0) 0 s = Some (r, s') \<and>
         attempts (ID t) (tracker s') \<le> attempts (ID t) (tracker s) + nat (max (sint (RetryOnFailure t)) 0) + 1"
    by (simp add: sint_max_int64 nat_add_distrib)
qed

text \<open>The theorem at \<^verbatim>\<open>retry_on_failure = -3\<close>, with an executor that fails.\<close>

theorem retry_count_clamped_witness:
  "max_int64 (- 3) 0 = 0 \<and>
   retryLoop example_lib TaskExec Randomly (mk_task ''t'' (- 3) [] []) (max_int64 (- 3) 0) 0
       (initial_state AnyNil DataTypeAny failing_mock)
     = Some (None, attempt TaskExec Randomly (mk_task ''t'' (- 3) [] []) 0
                     (initial_state AnyNil DataTypeAny failing_mock)) \<and>
   (\<exists>r s'. retryLoop example_lib TaskExec Randomly (mk_task ''t'' (- 3) [] []) (max_int64 (- 3) 0) 0
              (initial_state AnyNil DataTypeAny failing_mock) = Some (r, s') \<and>
            attempts ''t'' (tracker s') \<le> 1)"
proof -
  have n: "sint (RetryOnFailure (mk_task ''t'' (- 3) [] [])) < 0"
    by (simp add: mk_task_def)
  have b: "sint (RetryOnFailure (mk_task ''t'' (- 3) [] [])) < 2 ^ 63 - 1"
    by (simp add: mk_task_def)
  have to: "timeout_error example_lib (mk_task ''t'' (- 3) [] []) = None"
    by (simp add: timeout_error_def mk_task_def)
  have f: "RetryOnFailure (mk_task ''t'' (- 3) [] []) = - 3" "ID (mk_task ''t'' (- 3) [] []) = ''t''"
    by (simp_all add: mk_task_def)
  have e: "attempts ''t'' (tracker (initial_state AnyNil DataTypeAny failing_mock)) = 0"
    by (simp add: attempts_def initial_state_def)
  note T = retry_count_clamped [where t = "mk_task ''t'' (- 3) [] []" and L = example_lib and exec = TaskExec
      and res = Randomly and s = "initial_state AnyNil DataTypeAny failing_mock", unfolded f e]
  from T n [unfolded f] have 1: "max_int64 (- 3) 0 = (0 :: 64 word)"
    by blast
  from T n [unfolded f] to
  have 2: "retryLoop example_lib TaskExec Randomly (mk_task ''t'' (- 3) [] []) (max_int64 (- 3) 0) 0
       (initial_state AnyNil DataTypeAny failing_mock)
     = Some (None, attempt TaskExec Randomly (mk_task ''t'' (- 3) [] []) 0
                     (initial_state AnyNil DataTypeAny failing_mock))"
    by blast
  from T b [unfolded f]
  have "\<exists>r s'. retryLoop example_lib TaskExec Randomly (mk_task ''t'' (- 3) [] []) (max_int64 (- 3) 0) 0
              (initial_state AnyNil DataTypeAny failing_mock) = Some (r, s') \<and>
            attempts ''t'' (tracker s') \<le> 0 + nat (max (sint (- 3 :: 64 word)) 0) + 1"
    by blast
  then have 3: "\<exists>r s'. retryLoop example_lib TaskExec Randomly (mk_task ''t'' (- 3) [] []) (max_int64 (- 3) 0) 0
              (initial_state AnyNil DataTypeAny failing_mock) = Some (r, s') \<and>
            attempts ''t'' (tracker s') \<le> 1"
    by simp
  from 1 2 3 show ?thesis by blast
qed

text \<open>
  Claim C9 as stated fails at two inputs. With \<^verbatim>\<open>retry_on_failure = 9223372036854775807\<close>
  and an executor that fails on every call the loop never ends: the counter \<^verbatim>\<open>retry\<close> is
  never greater than \<^verbatim>\<open>maxRetries\<close>, and \<^verbatim>\<open>retry++\<close> wraps round to the least int64. With
  \<^verbatim>\<open>retry_on_failure = -1\<close> and the timeout \<^verbatim>\<open>soon\<close>, which is no duration, the loop returns
  the error \<^verbatim>\<open>invalid timeout\<close> and makes no attempt: the state is unchanged.
\<close>

theorem retry_loop_counterexample:
  "retryLoop example_lib TaskExec Randomly (mk_task ''t'' 0x7FFFFFFFFFFFFFFF [] [])
      (max_int64 0x7FFFFFFFFFFFFFFF 0) 0 (initial_state AnyNil DataTypeAny failing_mock) = None \<and>
   retryLoop example_lib TaskExec Randomly ((mk_task ''t'' (- 1) [] [])\<lparr>Timeout := ''soon''\<rparr>)
      (max_int64 (- 1) 0) 0 (initial_state AnyNil DataTypeAny failing_mock)
     = Some (Some (InvalidTimeout ''t'' (ExternalError ''time: invalid duration'')),
             initial_state AnyNil DataTypeAny failing_mock)"
proof
  have m: "sint (max_int64 0x7FFFFFFFFFFFFFFF 0) = 2 ^ 63 - 1"
    by (simp add: max_int64_def)
  have to: "timeout_error example_lib (mk_task ''t'' 0x7FFFFFFFFFFFFFFF [] []) = None"
    by (simp add: timeout_error_def mk_task_def)
  have i: "mock_fails (executor (initial_state AnyNil DataTypeAny failing_mock))"
    by (simp add: initial_state_def mock_fails_failing_mock)
  show "retryLoop example_lib TaskExec Randomly (mk_task ''t'' 0x7FFFFFFFFFFFFFFF [] [])
      (max_int64 0x7FFFFFFFFFFFFFFF 0) 0 (initial_state AnyNil DataTypeAny failing_mock) = None"
    by (rule retryLoop_diverges [OF m TaskExec_always_fails to i])
next
  have "timeout_error example_lib ((mk_task ''t'' (- 1) [] [])\<lparr>Timeout := ''soon''\<rparr>)
      = Some (InvalidTimeout ''t'' (ExternalError ''time: invalid duration''))"
    by (simp add: timeout_error_def mk_task_def example_lib_def)
  then show "retryLoop example_lib TaskExec Randomly ((mk_task ''t'' (- 1) [] [])\<lparr>Timeout := ''soon''\<rparr>)
      (max_int64 (- 1) 0) 0 (initial_state AnyNil DataTypeAny failing_mock)
     = Some (Some (InvalidTimeout ''t'' (ExternalError ''time: invalid duration'')),
             initial_state AnyNil DataTypeAny failing_mock)"
    by (simp add: retryLoop_bad_timeout max_int64_def)
qed

subsection \<open>Permanent failure of a task\<close>

lemma render_prompt_frame:
  "render_prompt L t s = Inr s1 \<Longrightarrow>
   tracker s1 = tracker s \<and> executor s1 = executor s \<and> stdout s1 = stdout s \<and> vars s1 = vars s"
  by (auto simp: render_prompt_def split: if_splits sum.splits)

lemma max_int64_nonnegative: "0 \<le> sint a \<Longrightarrow> max_int64 a 0 = a"
  by (simp add: max_int64_def)

lemma mainLoop_visit_return:
  "visit L exec res tasks t s = Some (Return result s') \<Longrightarrow>
   mainLoop L exec res tasks t s = Some (result, s')"
  by (subst mainLoop.simps) simp

lemma mainLoop_visit_continue:
  "visit L exec res tasks t s = Some (Continue next s') \<Longrightarrow>
   mainLoop L exec res tasks t s = mainLoop L exec res tasks next s'"
  by (subst mainLoop.simps) simp

lemma mainLoop_visit_diverges:
  "visit L exec res tasks t s = None \<Longrightarrow> mainLoop L exec res tasks t s = None"
  by (subst mainLoop.simps) simp

text \<open>
  Claim C4, as amended. Let the executor fail on every attempt of the task \<open>t\<close>, let the
  prompt of \<open>t\<close> render (or need no rendering), let its timeout be empty or parse, and let
  its \<^verbatim>\<open>retry_on_failure\<close> be \<open>N\<close> with \<open>0 \<le> N < 2^63 - 1\<close>. Then the engine makes exactly
  \<open>N + 1\<close> attempts on \<open>t\<close>, and afterwards:
  \<^item> if \<^verbatim>\<open>on_failure\<close> is empty, the execution fails with
    \<^verbatim>\<open>task <id> failed after N retries: ...\<close>, wrapping the last error of the executor;
  \<^item> if \<^verbatim>\<open>on_failure\<close> names a task of the chain, the execution is the execution that goes
    on from that task, after a \<^verbatim>\<open>next_task\<close> event with the reason \<^verbatim>\<open>error\<close>: no error is
    returned for the failure of \<open>t\<close>;
  \<^item> if \<^verbatim>\<open>on_failure\<close> names no task of the chain, the execution fails with
    \<^verbatim>\<open>error transition target not found\<close>.
\<close>

theorem permanent_failure_exhausts_retries:
  assumes fails: "always_fails exec t I" and i: "I (executor s)"
    and render: "render_prompt L t s = Inr s1"
    and to: "timeout_error L t = None"
    and n0: "0 \<le> sint (RetryOnFailure t)" and n1: "sint (RetryOnFailure t) < 2 ^ 63 - 1"
  shows "\<exists>s' terr. taskErr s' = Some terr \<and>
      attempts (ID t) (tracker s') = attempts (ID t) (tracker s) + nat (sint (RetryOnFailure t)) + 1 \<and>
      (OnFailure (Transition t) = [] \<longrightarrow>
         mainLoop L exec res tasks t s
           = Some (Inl (TaskFailedAfterRetries (ID t) (sint (RetryOnFailure t)) terr), s')) \<and>
      (\<forall>next. OnFailure (Transition t) \<noteq> [] \<longrightarrow>
         findTaskByID tasks (OnFailure (Transition t)) = Inr next \<longrightarrow>
         mainLoop L exec res tasks t s
           = mainLoop L exec res tasks next
               (emit [ReportChange ''next_task'' (ID t) (ID next) (AnyError terr)]
                 (defer_end ''next_task'' (ID t)
                   (emit [Start ''next_task'' (ID t)
                            [(''next_task'', AnyString (ID next)), (''reason'', AnyString ''error'')]] s')))) \<and>
      (\<forall>err. OnFailure (Transition t) \<noteq> [] \<longrightarrow>
         findTaskByID tasks (OnFailure (Transition t)) = Inl err \<longrightarrow>
         mainLoop L exec res tasks t s = Some (Inl (ErrorTransitionTargetNotFound err), s'))"
proof -
  let ?m = "max_int64 (RetryOnFailure t) 0"
  have m: "?m = RetryOnFailure t" using n0 by (rule max_int64_nonnegative)
  from render_prompt_frame [OF render] i have i1: "I (executor s1)" and tr: "tracker s1 = tracker s"
    by simp_all
  have z: "sint (0 :: 64 word) \<le> sint (RetryOnFailure t)" using n0 by simp
  from retryLoop_exhausts [OF n1 fails to z i1, of res]
  obtain s' where loop: "retryLoop L exec res t (RetryOnFailure t) 0 s1 = Some (None, s')"
    and err: "taskErr s' \<noteq> None"
    and count: "attempts (ID t) (tracker s') = attempts (ID t) (tracker s1) + nat (sint (RetryOnFailure t) + 1 - sint (0 :: 64 word))"
    by blast
  from err obtain terr where terr: "taskErr s' = Some terr" by auto
  have v: "visit L exec res tasks t s = Some (after_attempts L tasks t (RetryOnFailure t) s')"
    using render loop by (simp add: visit_def m)
  have c: "attempts (ID t) (tracker s') = attempts (ID t) (tracker s) + nat (sint (RetryOnFailure t)) + 1"
    using count tr n0 by (simp add: nat_add_distrib)
  have a1: "mainLoop L exec res tasks t s
      = Some (Inl (TaskFailedAfterRetries (ID t) (sint (RetryOnFailure t)) terr), s')"
    if "OnFailure (Transition t) = []"
    using that terr v by (intro mainLoop_visit_return) (simp add: after_attempts_def)
  have a2: "mainLoop L exec res tasks t s
           = mainLoop L exec res tasks next
               (emit [ReportChange ''next_task'' (ID t) (ID next) (AnyError terr)]
                 (defer_end ''next_task'' (ID t)
                   (emit [Start ''next_task'' (ID t)
                            [(''next_task'', AnyString (ID next)), (''reason'', AnyString ''error'')]] s')))"
    if "OnFailure (Transition t) \<noteq> []" "findTaskByID tasks (OnFailure (Transition t)) = Inr next" for "next"
    using that terr v by (intro mainLoop_visit_continue) (simp add: after_attempts_def)
  have a3: "mainLoop L exec res tasks t s = Some (Inl (ErrorTransitionTargetNotFound e), s')"
    if "OnFailure (Transition t) \<noteq> []" "findTaskByID tasks (OnFailure (Transition t)) = Inl e" for e
    using that terr v by (intro mainLoop_visit_return) (simp add: after_attempts_def)
  from terr c a1 a2 a3 show ?thesis by blast
qed


text \<open>
  The theorem for the failing mock: at a task with two retries and an \<^verbatim>\<open>on_failure\<close> task,
  and at a task with one retry and none.
\<close>

theorem permanent_failure_witness:
  "(\<exists>s' terr. taskErr s' = Some terr \<and> attempts ''a'' (tracker s') = 3 \<and>
      mainLoop example_lib TaskExec Randomly
          [mk_task ''a'' 2 ''h'' [], mk_task ''h'' 0 [] [mk_branch OpDefault [] ''end'']]
          (mk_task ''a'' 2 ''h'' []) (initial_state AnyNil DataTypeAny failing_mock)
        = mainLoop example_lib TaskExec Randomly
            [mk_task ''a'' 2 ''h'' [], mk_task ''h'' 0 [] [mk_branch OpDefault [] ''end'']]
            (mk_task ''h'' 0 [] [mk_branch OpDefault [] ''end''])
            (emit [ReportChange ''next_task'' ''a'' ''h'' (AnyError terr)]
              (defer_end ''next_task'' ''a''
                (emit [Start ''next_task'' ''a''
                         [(''next_task'', AnyString ''h''), (''reason'', AnyString ''error'')]] s')))) \<and>
   (\<exists>s' terr. taskErr s' = Some terr \<and> attempts ''b'' (tracker s') = 2 \<and>
      mainLoop example_lib TaskExec Randomly [mk_task ''b'' 1 [] []] (mk_task ''b'' 1 [] [])
          (initial_state AnyNil DataTypeAny failing_mock)
        = Some (Inl (TaskFailedAfterRetries ''b'' 1 terr), s'))"
proof
  let ?A = "mk_task ''a'' 2 ''h'' []" and ?H = "mk_task ''h'' 0 [] [mk_branch OpDefault [] ''end'']"
  let ?s = "initial_state AnyNil DataTypeAny failing_mock"
  have i: "mock_fails (executor ?s)"
    by (simp add: initial_state_def mock_fails_failing_mock)
  have r: "render_prompt example_lib ?A ?s = Inr ?s"
    by (simp add: render_prompt_def initial_state_def)
  have to: "timeout_error example_lib ?A = None"
    by (simp add: timeout_error_def mk_task_def)
  have f: "ID ?A = ''a''" "RetryOnFailure ?A = 2" "OnFailure (Transition ?A) = ''h''" "ID ?H = ''h''"
    by (simp_all add: mk_task_def)
  have n: "0 \<le> sint (RetryOnFailure ?A)" "sint (RetryOnFailure ?A) < 2 ^ 63 - 1"
    by (simp_all add: f)
  have h: "findTaskByID [?A, ?H] (OnFailure (Transition ?A)) = Inr ?H"
    by (simp add: mk_task_def)
  have e: "attempts ''a'' (tracker ?s) = 0"
    by (simp add: attempts_def initial_state_def)
  from permanent_failure_exhausts_retries [OF TaskExec_always_fails i r to n, of Randomly "[?A, ?H]"]
  obtain s' terr where "taskErr s' = Some terr"
    and "attempts (ID ?A) (tracker s') = attempts (ID ?A) (tracker ?s) + nat (sint (RetryOnFailure ?A)) + 1"
    and "\<forall>next. OnFailure (Transition ?A) \<noteq> [] \<longrightarrow>
         findTaskByID [?A, ?H] (OnFailure (Transition ?A)) = Inr next \<longrightarrow>
         mainLoop example_lib TaskExec Randomly [?A, ?H] ?A ?s
           = mainLoop example_lib TaskExec Randomly [?A, ?H] next
               (emit [ReportChange ''next_task'' (ID ?A) (ID next) (AnyError terr)]
                 (defer_end ''next_task'' (ID ?A)
                   (emit [Start ''next_task'' (ID ?A)
                            [(''next_task'', AnyString (ID next)), (''reason'', AnyString ''error'')]] s')))"
    by blast
  with h have "taskErr s' = Some terr \<and> attempts ''a'' (tracker s') = 3 \<and>
      mainLoop example_lib TaskExec Randomly [?A, ?H] ?A ?s
        = mainLoop example_lib TaskExec Randomly [?A, ?H] ?H
            (emit [ReportChange ''next_task'' ''a'' ''h'' (AnyError terr)]
              (defer_end ''next_task'' ''a''
                (emit [Start ''next_task'' ''a''
                         [(''next_task'', AnyString ''h''), (''reason'', AnyString ''error'')]] s')))"
    by (simp add: f e)
  then show "\<exists>s' terr. taskErr s' = Some terr \<and> attempts ''a'' (tracker s') = 3 \<and>
      mainLoop example_lib TaskExec Randomly [?A, ?H] ?A ?s
        = mainLoop example_lib TaskExec Randomly [?A, ?H] ?H
            (emit [ReportChange ''next_task'' ''a'' ''h'' (AnyError terr)]
              (defer_end ''next_task'' ''a''
                (emit [Start ''next_task'' ''a''
                         [(''next_task'', AnyString ''h''), (''reason'', AnyString ''error'')]] s')))"
    by blast
next
  let ?B = "mk_task ''b'' 1 [] []"
  let ?s = "initial_state AnyNil DataTypeAny failing_mock"
  have i: "mock_fails (executor ?s)"
    by (simp add: initial_state_def mock_fails_failing_mock)
  have r: "render_prompt example_lib ?B ?s = Inr ?s"
    by (simp add: render_prompt_def initial_state_def)
  have to: "timeout_error example_lib ?B = None"
    by (simp add: timeout_error_def mk_task_def)
  have f: "ID ?B = ''b''" "RetryOnFailure ?B = 1" "OnFailure (Transition ?B) = []"
    by (simp_all add: mk_task_def)
  have n: "0 \<le> sint (RetryOnFailure ?B)" "sint (RetryOnFailure ?B) < 2 ^ 63 - 1"
    by (simp_all add: f)
  have e: "attempts ''b'' (tracker ?s) = 0"
    by (simp add: attempts_def initial_state_def)
  from permanent_failure_exhausts_retries [OF TaskExec_always_fails i r to n, of Randomly "[?B]"]
  obtain s' terr where "taskErr s' = Some terr"
    and "attempts (ID ?B) (tracker s') = attempts (ID ?B) (tracker ?s) + nat (sint (RetryOnFailure ?B)) + 1"
    and "OnFailure (Transition ?B) = [] \<longrightarrow>
         mainLoop example_lib TaskExec Randomly [?B] ?B ?s
           = Some (Inl (TaskFailedAfterRetries (ID ?B) (sint (RetryOnFailure ?B)) terr), s')"
    by blast
  then have "taskErr s' = Some terr \<and> attempts ''b'' (tracker s') = 2 \<and>
      mainLoop example_lib TaskExec Randomly [?B] ?B ?s = Some (Inl (TaskFailedAfterRetries ''b'' 1 terr), s')"
    by (simp add: f e)
  then show "\<exists>s' terr. taskErr s' = Some terr \<and> attempts ''b'' (tracker s') = 2 \<and>
      mainLoop example_lib TaskExec Randomly [?B] ?B ?s = Some (Inl (TaskFailedAfterRetries ''b'' 1 terr), s')"
    by blast
qed

text \<open>
  Claim C4 as stated fails at three inputs, each with an executor that always fails.
  With \<^verbatim>\<open>retry_on_failure = 9223372036854775807\<close> the call never returns. With the timeout
  \<^verbatim>\<open>soon\<close> and two retries the engine makes no attempt and returns \<^verbatim>\<open>invalid timeout\<close>.
  With \<^verbatim>\<open>on_failure = "missing"\<close>, which names no task, the two attempts are followed by
  the error \<^verbatim>\<open>error transition target not found\<close>, returned to the caller.
\<close>

theorem permanent_failure_counterexample:
  "ExecEnv example_lib TaskExec (mk_chain [] [mk_task ''t'' 0x7FFFFFFFFFFFFFFF [] []])
      AnyNil DataTypeAny failing_mock = None \<and>
   observable (ExecEnv example_lib TaskExec (mk_chain [] [(mk_task ''t'' 2 [] [])\<lparr>Timeout := ''soon''\<rparr>])
      AnyNil DataTypeAny failing_mock)
     = Some (Inl (InvalidTimeout ''t'' (ExternalError ''time: invalid duration'')), [], []) \<and>
   observable (ExecEnv example_lib TaskExec (mk_chain [] [mk_task ''t'' 1 ''missing'' []])
      AnyNil DataTypeAny failing_mock)
     = Some (Inl (ErrorTransitionTargetNotFound (TaskNotFound ''missing'')), [],
         [Start ''task_attempt'' ''t'' [(''retry'', AnyInt 0), (''task_type'', AnyString ''raw_string'')],
          ReportErr ''task_attempt'' ''t'' (ExternalError ''boom''),
          Start ''task_attempt'' ''t'' [(''retry'', AnyInt 1), (''task_type'', AnyString ''raw_string'')],
          ReportErr ''task_attempt'' ''t'' (ExternalError ''boom''),
          End ''task_attempt'' ''t'', End ''task_attempt'' ''t''])"
proof (intro conjI)
  let ?T = "mk_task ''t'' 0x7FFFFFFFFFFFFFFF [] []"
  let ?s = "initial_state AnyNil DataTypeAny failing_mock"
  have m: "sint (max_int64 (RetryOnFailure ?T) 0) = 2 ^ 63 - 1"
    by (simp add: max_int64_def mk_task_def)
  have to: "timeout_error example_lib ?T = None"
    by (simp add: timeout_error_def mk_task_def)
  have i: "mock_fails (executor ?s)"
    by (simp add: initial_state_def mock_fails_failing_mock)
  have r: "render_prompt example_lib ?T ?s = Inr ?s"
    by (simp add: render_prompt_def initial_state_def)
  have "visit example_lib TaskExec Randomly [?T] ?T ?s = None"
    using retryLoop_diverges [OF m TaskExec_always_fails to i, of Randomly 0] r
    by (simp add: visit_def)
  then have "mainLoop example_lib TaskExec Randomly [?T] ?T ?s = None"
    by (rule mainLoop_visit_diverges)
  moreover have "validateChain [?T] = None" "findTaskByID [?T] (ID ?T) = Inr ?T"
    by (simp_all add: validateChain_def mk_task_def)
  ultimately show "ExecEnv example_lib TaskExec (mk_chain [] [?T]) AnyNil DataTypeAny failing_mock = None"
    by (simp add: ExecEnv_def exec_with_def mk_chain_def)
next
  show "observable (ExecEnv example_lib TaskExec (mk_chain [] [(mk_task ''t'' 2 [] [])\<lparr>Timeout := ''soon''\<rparr>])
      AnyNil DataTypeAny failing_mock)
     = Some (Inl (InvalidTimeout ''t'' (ExternalError ''time: invalid duration'')), [], [])"
    by (simp add: run_simps)
next
  show "observable (ExecEnv example_lib TaskExec (mk_chain [] [mk_task ''t'' 1 ''missing'' []])
      AnyNil DataTypeAny failing_mock)
     = Some (Inl (ErrorTransitionTargetNotFound (TaskNotFound ''missing'')), [],
         [Start ''task_attempt'' ''t'' [(''retry'', AnyInt 0), (''task_type'', AnyString ''raw_string'')],
          ReportErr ''task_attempt'' ''t'' (ExternalError ''boom''),
          Start ''task_attempt'' ''t'' [(''retry'', AnyInt 1), (''task_type'', AnyString ''raw_string'')],
          ReportErr ''task_attempt'' ''t'' (ExternalError ''boom''),
          End ''task_attempt'' ''t'', End ''task_attempt'' ''t''])"
    by (simp add: run_simps)
qed

subsection \<open>The end of a chain\<close>





subsection \<open>The print statement\<close>

lemma state_of_map_state:
  "stdout (state_of (map_state (\<lambda>s'. s'\<lparr>stdout := out\<rparr>) st)) = out"
  "tracker (state_of (map_state (\<lambda>s'. s'\<lparr>stdout := out\<rparr>) st)) = tracker (state_of st)"
  by (cases st; simp)+

lemma after_attempts_print:
  assumes "taskErr s = None" and "Print t \<noteq> []"
    and "renderTemplate L (Print t) (vars (scope_update t s)) = Inr printMsg"
  shows "after_attempts L tasks t m s =
     map_state (\<lambda>s'. s'\<lparr>stdout := stdout s @ [printMsg]\<rparr>) (after_attempts L tasks (t\<lparr>Print := []\<rparr>) m s)"
  using assms
  by (simp add: after_attempts_def handle_print_def scope_update_def Let_def emit_def defer_end_def
      split: sum.splits)

text \<open>
  Claim C6, as amended. After a task has succeeded, a non-empty print template is
  rendered against the variable scope (with \<^verbatim>\<open>previous_output\<close> and the task's id bound to
  the output) and the text is written to standard output. That is the whole effect of
  the print statement: the pass of the loop ends as it does for the same task without a
  print template, but for the new line on standard output; the tracker receives exactly
  the same calls.
\<close>

theorem print_goes_to_stdout:
  assumes "taskErr s = None" and "Print t \<noteq> []"
    and "renderTemplate L (Print t) (vars (scope_update t s)) = Inr printMsg"
  shows "after_attempts L tasks t m s =
           map_state (\<lambda>s'. s'\<lparr>stdout := stdout s @ [printMsg]\<rparr>)
             (after_attempts L tasks (t\<lparr>Print := []\<rparr>) m s) \<and>
         stdout (state_of (after_attempts L tasks t m s)) = stdout s @ [printMsg] \<and>
         tracker (state_of (after_attempts L tasks t m s))
           = tracker (state_of (after_attempts L tasks (t\<lparr>Print := []\<rparr>) m s))"
  by (simp add: after_attempts_print [OF assms] state_of_map_state)

text \<open>The theorem for a task with the print template \<^verbatim>\<open>done\<close>.\<close>

theorem print_goes_to_stdout_witness:
  "stdout (state_of (after_attempts example_lib [] ((mk_task ''t'' 0 [] [])\<lparr>Print := ''done''\<rparr>) 0
       (initial_state (AnyString ''hi'') DataTypeAny (mock (AnyString ''hi'') ''hi'' None)))) = [''done''] \<and>
   tracker (state_of (after_attempts example_lib [] ((mk_task ''t'' 0 [] [])\<lparr>Print := ''done''\<rparr>) 0
       (initial_state (AnyString ''hi'') DataTypeAny (mock (AnyString ''hi'') ''hi'' None))))
     = tracker (state_of (after_attempts example_lib [] (mk_task ''t'' 0 [] []) 0
       (initial_state (AnyString ''hi'') DataTypeAny (mock (AnyString ''hi'') ''hi'' None))))"
proof -
  let ?t = "(mk_task ''t'' 0 [] [])\<lparr>Print := ''done''\<rparr>"
  let ?s = "initial_state (AnyString ''hi'') DataTypeAny (mock (AnyString ''hi'') ''hi'' None)"
  have e: "taskErr ?s = None" "stdout ?s = []"
    by (simp_all add: initial_state_def)
  have p: "Print ?t \<noteq> []" "?t\<lparr>Print := []\<rparr> = mk_task ''t'' 0 [] []"
    by (simp_all add: mk_task_def)
  have r: "renderTemplate example_lib (Print ?t) (vars (scope_update ?t ?s)) = Inr ''done''"
    by (simp add: example_lib_def mk_task_def)
  from print_goes_to_stdout [OF e(1) p(1) r, of "[]" 0]
  have "stdout (state_of (after_attempts example_lib [] ?t 0 ?s)) = stdout ?s @ [''done'']"
    and "tracker (state_of (after_attempts example_lib [] ?t 0 ?s))
           = tracker (state_of (after_attempts example_lib [] (?t\<lparr>Print := []\<rparr>) 0 ?s))"
    by blast+
  then show ?thesis
    by (simp add: e p)
qed

text \<open>
  Claim C6 as stated fails: a chain of one task with the print template \<^verbatim>\<open>done\<close> writes
  the line \<^verbatim>\<open>done\<close> to standard output, and none of the calls the tracker receives
  carries it.
\<close>

theorem print_counterexample:
  "observable (ExecEnv example_lib TaskExec
      (mk_chain [] [(mk_task ''t'' 0 [] [mk_branch OpDefault [] ''end''])\<lparr>Print := ''done''\<rparr>])
      (AnyString ''hi'') DataTypeAny (mock (AnyString ''hi'') ''hi'' None))
   = Some (Inr (AnyString ''hi''), [''done''],
       [Start ''task_attempt'' ''t'' [(''retry'', AnyInt 0), (''task_type'', AnyString ''raw_string'')],
        ReportChange ''task_attempt'' ''t'' ''t'' (AnyString ''hi''),
        Start ''chain_complete'' ''chain'' [(''final_output'', AnyString ''hi'')],
        ReportChange ''chain_complete'' ''chain'' ''chain'' (AnyString ''hi''),
        End ''chain_complete'' ''chain'', End ''task_attempt'' ''t''])"
  by (simp add: run_simps)

subsection \<open>The resolver\<close>










subsection \<open>What \<^verbatim>\<open>ExecEnv\<close> returns\<close>


















end
